theory Spec2Isabelle
  imports Complex_Main "HOL-Library.List_Lexorder" "HOL-Library.Char_ord"
begin

section \<open>Python values, exceptions and built-ins\<close>

text \<open>
  The dashboard engine is Python. Exceptions are values of a sum type: \<open>Inl e\<close> is the
  exception \<open>e\<close> propagating out of the function, \<open>Inr v\<close> is a normal return. Python's
  \<open>None\<close> is \<open>None\<close> of an option type. Floats are modelled as real numbers (no
  rounding, no NaN, no infinities).
\<close>

datatype error = IndexError | ValueError | KeyError | ZeroDivisionError | TypeError

definition py_get :: "'a list \<Rightarrow> int \<Rightarrow> error + 'a" where
  \<comment> \<open>\<open>xs[i]\<close>: a negative index counts from the end, out of range raises.\<close>
  "py_get xs i =
     (if i < 0 then
        (if - i \<le> int (length xs) then Inr (xs ! (length xs - nat (- i))) else Inl IndexError)
      else
        (if i < int (length xs) then Inr (xs ! nat i) else Inl IndexError))"

definition py_div :: "real \<Rightarrow> real \<Rightarrow> error + real" where
  \<comment> \<open>\<open>a / b\<close> on floats.\<close>
  "py_div a b = (if b = 0 then Inl ZeroDivisionError else Inr (a / b))"

definition is_digit :: "char \<Rightarrow> bool" where
  "is_digit c = (c \<in> set ''0123456789'')"

definition digit_val :: "char \<Rightarrow> nat" where
  "digit_val c = of_char c - 48"

definition is_space :: "char \<Rightarrow> bool" where
  \<comment> \<open>The ASCII characters that \<open>str.strip()\<close> removes.\<close>
  "is_space c = (c \<in> {CHR '' '', CHR 0x09, CHR 0x0A, CHR 0x0B, CHR 0x0C, CHR 0x0D,
                        CHR 0x1C, CHR 0x1D, CHR 0x1E, CHR 0x1F})"

definition strip :: "string \<Rightarrow> string" where
  "strip s = rev (dropWhile is_space (rev (dropWhile is_space s)))"

fun digits_val :: "nat \<Rightarrow> string \<Rightarrow> nat" where
  \<comment> \<open>The value of a digit string, underscores skipped.\<close>
  "digits_val acc [] = acc"
| "digits_val acc (c # cs) =
     (if c = CHR ''_'' then digits_val acc cs else digits_val (10 * acc + digit_val c) cs)"

fun int_digits :: "string \<Rightarrow> bool" where
  \<comment> \<open>Python's integer literal body: digits, with single underscores between digits.\<close>
  "int_digits [] = False"
| "int_digits [c] = is_digit c"
| "int_digits (c # d # cs) =
     (is_digit c \<and> (if d = CHR ''_'' then int_digits cs else int_digits (d # cs)))"

definition py_int :: "string \<Rightarrow> error + int" where
  \<comment> \<open>\<open>int(s)\<close> on an ASCII string: surrounding whitespace, an optional sign, digits.\<close>
  "py_int s =
     (case strip s of
        [] \<Rightarrow> Inl ValueError
      | c # cs \<Rightarrow>
          if c = CHR ''-'' then
            (if int_digits cs then Inr (- int (digits_val 0 cs)) else Inl ValueError)
          else if c = CHR ''+'' then
            (if int_digits cs then Inr (int (digits_val 0 cs)) else Inl ValueError)
          else if int_digits (c # cs) then Inr (int (digits_val 0 (c # cs)))
          else Inl ValueError)"

function str_nat :: "nat \<Rightarrow> string" where
  "str_nat n =
     (if n < 10 then [''0123456789'' ! n] else str_nat (n div 10) @ [''0123456789'' ! (n mod 10)])"
  by pat_completeness auto
termination
  by (relation "measure (\<lambda>n. n)") auto

declare str_nat.simps [simp del]

definition str_int :: "int \<Rightarrow> string" where
  \<comment> \<open>\<open>str(i)\<close>, also what an f-string prints for an int.\<close>
  "str_int i = (if i < 0 then CHR ''-'' # str_nat (nat (- i)) else str_nat (nat i))"

subsection \<open>Dates: \<open>datetime.strptime(s, "%Y-%m-%d")\<close> and day differences\<close>

definition is_leap :: "int \<Rightarrow> bool" where
  "is_leap y = (y mod 4 = 0 \<and> (y mod 100 \<noteq> 0 \<or> y mod 400 = 0))"

definition days_in_month :: "int \<Rightarrow> int \<Rightarrow> int" where
  "days_in_month y m =
     (if m = 2 then (if is_leap y then 29 else 28)
      else if m = 4 \<or> m = 6 \<or> m = 9 \<or> m = 11 then 30 else 31)"

definition days_before_year :: "int \<Rightarrow> int" where
  "days_before_year y = (y - 1) * 365 + (y - 1) div 4 - (y - 1) div 100 + (y - 1) div 400"

definition days_before_month :: "int \<Rightarrow> int \<Rightarrow> int" where
  "days_before_month y m =
     ([0, 31, 59, 90, 120, 151, 181, 212, 243, 273, 304, 334] ! nat (m - 1))
       + (if m > 2 \<and> is_leap y then 1 else 0)"

definition toordinal :: "int \<Rightarrow> int \<Rightarrow> int \<Rightarrow> int" where
  \<comment> \<open>The proleptic Gregorian ordinal of a date; day 1 is 0001-01-01.\<close>
  "toordinal y m d = days_before_year y + days_before_month y m + d"

fun split_dash :: "string \<Rightarrow> string list" where
  "split_dash [] = [[]]"
| "split_dash (c # cs) =
     (if c = CHR ''-'' then [] # split_dash cs
      else (case split_dash cs of [] \<Rightarrow> [[c]] | f # fs \<Rightarrow> (c # f) # fs))"

definition year_field :: "string \<Rightarrow> bool" where
  \<comment> \<open>\<open>%Y\<close>: exactly four digits.\<close>
  "year_field s = (length s = 4 \<and> list_all is_digit s)"

definition month_field :: "string \<Rightarrow> bool" where
  \<comment> \<open>\<open>%m\<close>: \<open>1[0-2]|0[1-9]|[1-9]\<close>.\<close>
  "month_field s =
     (case s of
        [a] \<Rightarrow> is_digit a \<and> a \<noteq> CHR ''0''
      | [a, b] \<Rightarrow> (a = CHR ''1'' \<and> b \<in> set ''012'')
                  \<or> (a = CHR ''0'' \<and> is_digit b \<and> b \<noteq> CHR ''0'')
      | _ \<Rightarrow> False)"

definition day_field :: "string \<Rightarrow> bool" where
  \<comment> \<open>\<open>%d\<close>: \<open>3[0-1]|[1-2]\d|0[1-9]|[1-9]| [1-9]\<close>.\<close>
  "day_field s =
     (case s of
        [a] \<Rightarrow> is_digit a \<and> a \<noteq> CHR ''0''
      | [a, b] \<Rightarrow> (a = CHR ''3'' \<and> b \<in> set ''01'')
                  \<or> (a \<in> set ''12'' \<and> is_digit b)
                  \<or> (a \<in> set ''0 '' \<and> is_digit b \<and> b \<noteq> CHR ''0'')
      | _ \<Rightarrow> False)"

definition strptime :: "string \<Rightarrow> error + int" where
  \<comment> \<open>\<open>datetime.strptime(s, "%Y-%m-%d")\<close>, the date given by its ordinal; a string that
      does not match, or a day that the month does not have, raises ValueError.\<close>
  "strptime s =
     (case split_dash s of
        [y, m, d] \<Rightarrow>
          if year_field y \<and> month_field m \<and> day_field d then
            (let yy = int (digits_val 0 y);
                 mm = int (digits_val 0 (dropWhile is_space m));
                 dd = int (digits_val 0 (dropWhile is_space d))
             in if 1 \<le> yy \<and> dd \<le> days_in_month yy mm
                then Inr (toordinal yy mm dd) else Inl ValueError)
          else Inl ValueError
      | _ \<Rightarrow> Inl ValueError)"

section \<open>Series and the frequency classifier (fetch_minister_data.py)\<close>

record observation =
  date :: string
  val :: real

type_synonym series = "observation list"

definition last_gap :: "series \<Rightarrow> error + int" where
  \<comment> \<open>\<open>(d1 - d2).days\<close> for the last two points, as both classifiers compute it.\<close>
  "last_gap data =
     (case strptime (take 10 (date (data ! (length data - 1)))) of
        Inl e \<Rightarrow> Inl e
      | Inr d1 \<Rightarrow>
          (case strptime (take 10 (date (data ! (length data - 2)))) of
             Inl e \<Rightarrow> Inl e
           | Inr d2 \<Rightarrow> Inr (d1 - d2)))"

definition is_quarterly :: "series \<Rightarrow> error + bool" where
  "is_quarterly data =
     (if length data < 2 then Inr False
      else (case last_gap data of Inl e \<Rightarrow> Inl e | Inr g \<Rightarrow> Inr (g > 60)))"

definition is_annual :: "series \<Rightarrow> error + bool" where
  "is_annual data =
     (if length data < 2 then Inr False
      else (case last_gap data of Inl e \<Rightarrow> Inl e | Inr g \<Rightarrow> Inr (g > 300)))"

definition get_yoy_index :: "series \<Rightarrow> error + int option" where
  "get_yoy_index data =
     (case is_annual data of
        Inl e \<Rightarrow> Inl e
      | Inr True \<Rightarrow> Inr (if length data \<ge> 2 then Some (- 2) else None)
      | Inr False \<Rightarrow>
          (case is_quarterly data of
             Inl e \<Rightarrow> Inl e
           | Inr True \<Rightarrow> Inr (if length data \<ge> 5 then Some (- 5) else None)
           | Inr False \<Rightarrow> Inr (if length data \<ge> 13 then Some (- 13) else None)))"

section \<open>Formatting (fetch_minister_data.py)\<close>

definition on_ok :: "error + 'a \<Rightarrow> ('a \<Rightarrow> error + 'b) \<Rightarrow> error + 'b" where
  \<comment> \<open>Sequencing: an exception of the first computation skips the rest.\<close>
  "on_ok x f = (case x of Inl e \<Rightarrow> Inl e | Inr v \<Rightarrow> f v)"

definition round_half_even :: "real \<Rightarrow> int" where
  "round_half_even x =
     (let f = \<lfloor>x\<rfloor>; r = x - of_int f
      in if r < 1 / 2 then f else if 1 / 2 < r then f + 1 else if even f then f else f + 1)"

definition fmt_1f :: "real \<Rightarrow> string" where
  \<comment> \<open>\<open>f"{x:.1f}"\<close>: one decimal, of the exact value.\<close>
  "fmt_1f x =
     (let n = nat (round_half_even (\<bar>x\<bar> * 10))
      in (if x < 0 then ''-'' else []) @ str_nat (n div 10) @ ''.'' @ str_nat (n mod 10))"

definition arrow_up :: string where
  \<comment> \<open>U+2191, in UTF-8.\<close>
  "arrow_up = [CHR 0xE2, CHR 0x86, CHR 0x91]"

definition arrow_down :: string where
  \<comment> \<open>U+2193, in UTF-8.\<close>
  "arrow_down = [CHR 0xE2, CHR 0x86, CHR 0x93]"

definition format_period :: "string \<Rightarrow> bool \<Rightarrow> error + string" where
  "format_period date_str quarterly =
     (if quarterly then
        on_ok (py_int (take 2 (drop 5 date_str)))
          (\<lambda>month. Inr (take 4 date_str @ ''-Q'' @ str_int ((month - 1) div 3 + 1)))
      else Inr (take 7 date_str))"

definition format_detail :: "real \<Rightarrow> string \<Rightarrow> string \<Rightarrow> string \<times> string" where
  "format_detail change unit direction =
     (let arrow = (if change \<ge> 0 then arrow_up else arrow_down);
          detail = (if unit = ''pp'' then arrow @ '' '' @ fmt_1f \<bar>change\<bar> @ '' pp year over year''
                    else arrow @ '' '' @ fmt_1f \<bar>change\<bar> @ ''% year over year'');
          color = (if direction = ''positive'' then (if change \<ge> 0 then ''positive'' else ''negative'')
                   else if direction = ''negative'' then (if change \<le> 0 then ''positive'' else ''negative'')
                   else ''neutral'')
      in (detail, color))"

section \<open>Metric configuration and results\<close>

record vector_ref =
  vec_id :: string
  periods :: nat
  label :: "string option"
  role :: "string option"

text \<open>
  One entry of \<open>MINISTER_VECTOR_MAP\<close>. \<open>format_value\<close> stands for the bound method
  \<open>config["format_value"].format\<close>, a function from the number to its text; \<open>scalar\<close>
  and \<open>population_vectors\<close> are optional keys.
\<close>

record config =
  vectors :: "vector_ref list"
  population_vectors :: "vector_ref list option"
  compute :: string
  direction :: string
  format_value :: "real \<Rightarrow> string"
  scalar :: "real option"
  period_format :: "string option"

text \<open>The \<open>latest\<close> block of a metric: the dict with the keys value, detail, detail_color, period.\<close>

record result =
  value_text :: string
  detail :: string
  detail_color :: string
  period :: string

type_synonym all_data = "string \<Rightarrow> series option"

definition get_data :: "all_data \<Rightarrow> string option \<Rightarrow> series option" where
  \<comment> \<open>\<open>all_data.get(k)\<close>; the key \<open>None\<close> is never present.\<close>
  "get_data ad k = (case k of None \<Rightarrow> None | Some i \<Rightarrow> ad i)"

definition falsy :: "series option \<Rightarrow> bool" where
  \<comment> \<open>\<open>not data\<close>: absent or empty.\<close>
  "falsy d = (case d of None \<Rightarrow> True | Some xs \<Rightarrow> xs = [])"

definition period_of :: "series \<Rightarrow> error + string" where
  \<comment> \<open>\<open>data[-1]["date"][:4] if is_annual(data) else format_period(data[-1]["date"], is_quarterly(data))\<close>\<close>
  "period_of data =
     on_ok (is_annual data) (\<lambda>a.
       if a then Inr (take 4 (date (last data)))
       else on_ok (is_quarterly data) (\<lambda>q. format_period (date (last data)) q))"

definition period_mq :: "series \<Rightarrow> error + string" where
  \<comment> \<open>\<open>format_period(data[-1]["date"], is_quarterly(data))\<close>\<close>
  "period_mq data = on_ok (is_quarterly data) (\<lambda>q. format_period (date (last data)) q)"

section \<open>The compute strategies (fetch_minister_data.py)\<close>

text \<open>
  In every strategy \<open>data[-1]\<close> is read only after \<open>not data\<close> has returned, so it is
  \<open>last data\<close>; \<open>data[yoy_idx]\<close> is \<open>py_get\<close>, which can raise.
\<close>

definition compute_rate_yoy_pp :: "config \<Rightarrow> all_data \<Rightarrow> error + result option" where
  "compute_rate_yoy_pp cfg ad =
     on_ok (py_get (vectors cfg) 0) (\<lambda>vec.
       case ad (vec_id vec) of
         None \<Rightarrow> Inr None
       | Some data \<Rightarrow>
           if data = [] \<or> length data < 2 then Inr None
           else
             let latest_val = val (last data) in
             on_ok (get_yoy_index data) (\<lambda>yoy_idx.
               case yoy_idx of
                 None \<Rightarrow> Inr None
               | Some i \<Rightarrow>
                   on_ok (py_get data i) (\<lambda>yoy.
                     let pp_change = latest_val - val yoy;
                         dc = format_detail pp_change ''pp'' (direction cfg)
                     in on_ok (period_of data) (\<lambda>p.
                          Inr (Some \<lparr>value_text = format_value cfg latest_val,
                                     detail = fst dc, detail_color = snd dc, period = p\<rparr>)))))"

definition get_scalar :: "config \<Rightarrow> real" where
  \<comment> \<open>\<open>config.get("scalar", 1)\<close>\<close>
  "get_scalar cfg = (case scalar cfg of None \<Rightarrow> 1 | Some s \<Rightarrow> s)"

definition compute_level_yoy_pct :: "config \<Rightarrow> all_data \<Rightarrow> error + result option" where
  "compute_level_yoy_pct cfg ad =
     on_ok (py_get (vectors cfg) 0) (\<lambda>vec.
       case ad (vec_id vec) of
         None \<Rightarrow> Inr None
       | Some data \<Rightarrow>
           if data = [] \<or> length data < 2 then Inr None
           else
             let latest_val = val (last data) in
             on_ok (py_div latest_val (get_scalar cfg)) (\<lambda>display_val.
             on_ok (get_yoy_index data) (\<lambda>yoy_idx.
               case yoy_idx of
                 None \<Rightarrow> Inr None
               | Some i \<Rightarrow>
                   on_ok (py_get data i) (\<lambda>yoy.
                     let yoy_val = val yoy;
                         pct_change = (if yoy_val \<noteq> 0 then (latest_val / yoy_val - 1) * 100 else 0);
                         dc = format_detail pct_change ''%'' (direction cfg)
                     in on_ok (period_of data) (\<lambda>p.
                          Inr (Some \<lparr>value_text = format_value cfg display_val,
                                     detail = fst dc, detail_color = snd dc, period = p\<rparr>))))))"

definition compute_level_qoq_pct :: "config \<Rightarrow> all_data \<Rightarrow> error + result option" where
  "compute_level_qoq_pct cfg ad =
     on_ok (py_get (vectors cfg) 0) (\<lambda>vec.
       case ad (vec_id vec) of
         None \<Rightarrow> Inr None
       | Some data \<Rightarrow>
           if data = [] \<or> length data < 2 then Inr None
           else
             let latest_val = val (last data) in
             on_ok (py_div latest_val (get_scalar cfg)) (\<lambda>display_val.
             on_ok (py_get data (- 2)) (\<lambda>prev.
               let prev_val = val prev;
                   pct_change = (if prev_val \<noteq> 0 then (latest_val / prev_val - 1) * 100 else 0);
                   color = (if direction cfg = ''positive''
                            then (if pct_change \<ge> 0 then ''positive'' else ''negative'')
                            else if direction cfg = ''negative''
                            then (if pct_change \<le> 0 then ''positive'' else ''negative'')
                            else ''neutral'');
                   arrow = (if pct_change \<ge> 0 then arrow_up else arrow_down);
                   det = arrow @ '' '' @ fmt_1f \<bar>pct_change\<bar> @ ''% quarter over quarter''
               in on_ok (format_period (date (last data)) True) (\<lambda>p.
                    Inr (Some \<lparr>value_text = format_value cfg display_val,
                               detail = det, detail_color = color, period = p\<rparr>)))))"

definition compute_count_yoy_pct :: "config \<Rightarrow> all_data \<Rightarrow> error + result option" where
  "compute_count_yoy_pct cfg ad = compute_level_yoy_pct cfg ad"

fun find_labels ::
  "string \<Rightarrow> string \<Rightarrow> vector_ref list \<Rightarrow> string option \<times> string option
     \<Rightarrow> error + (string option \<times> string option)" where
  \<comment> \<open>The loop that picks the two labelled vectors; \<open>v["label"]\<close> raises on a vector without label.\<close>
  "find_labels la lb [] acc = Inr acc"
| "find_labels la lb (v # vs) (a, b) =
     (case label v of
        None \<Rightarrow> Inl KeyError
      | Some l \<Rightarrow>
          if l = la then find_labels la lb vs (Some (vec_id v), b)
          else if l = lb then find_labels la lb vs (a, Some (vec_id v))
          else find_labels la lb vs (a, b))"

definition idx_fits :: "series \<Rightarrow> int \<Rightarrow> bool" where
  \<comment> \<open>\<open>len(data) >= abs(yoy_idx)\<close>\<close>
  "idx_fits data i = (int (length data) \<ge> \<bar>i\<bar>)"

definition pair_detail ::
  "(real \<Rightarrow> real \<Rightarrow> real) \<Rightarrow> real \<Rightarrow> string \<Rightarrow> series \<Rightarrow> series \<Rightarrow> int option
     \<Rightarrow> error + (string \<times> string)" where
  \<comment> \<open>The year-over-year block shared, line for line, by share_pct and wage_gap: \<open>ratio a b\<close> is
      the strategy's formula on the reference value \<open>a\<close> and the compared value \<open>b\<close>, used when
      \<open>a\<close> is not zero.\<close>
  "pair_detail ratio now dir a_data b_data yoy_idx =
     (case yoy_idx of
        None \<Rightarrow> Inr ([], ''neutral'')
      | Some i \<Rightarrow>
          if idx_fits b_data i then
            on_ok (py_get a_data i) (\<lambda>pa.
            on_ok (py_get b_data i) (\<lambda>pb.
              let prev_a = val pa; prev_b = val pb;
                  prev = (if prev_a \<noteq> 0 then ratio prev_a prev_b else 0);
                  pp_change = now - prev
              in Inr (format_detail pp_change ''pp'' dir)))
          else Inr ([], ''neutral''))"

definition compute_share_pct :: "config \<Rightarrow> all_data \<Rightarrow> error + result option" where
  "compute_share_pct cfg ad =
     on_ok (find_labels ''total_exports'' ''us_exports'' (vectors cfg) (None, None)) (\<lambda>(total_vec, us_vec).
       let total_d = get_data ad total_vec; us_d = get_data ad us_vec in
       if falsy total_d \<or> falsy us_d then Inr None
       else
         let total_data = the total_d; us_data = the us_d;
             latest_total = val (last total_data);
             latest_us = val (last us_data) in
         if latest_total = 0 then Inr None
         else
           let share = (1 - latest_us / latest_total) * 100 in
           on_ok (get_yoy_index total_data) (\<lambda>yoy_idx.
           on_ok (pair_detail (\<lambda>t u. (1 - u / t) * 100) share (direction cfg)
                    total_data us_data yoy_idx) (\<lambda>dc.
           on_ok (period_mq total_data) (\<lambda>p.
             Inr (Some \<lparr>value_text = format_value cfg share,
                        detail = fst dc, detail_color = snd dc, period = p\<rparr>)))))"

definition compute_wage_gap :: "config \<Rightarrow> all_data \<Rightarrow> error + result option" where
  "compute_wage_gap cfg ad =
     on_ok (find_labels ''male_wage'' ''female_wage'' (vectors cfg) (None, None)) (\<lambda>(male_vec, female_vec).
       let male_d = get_data ad male_vec; female_d = get_data ad female_vec in
       if falsy male_d \<or> falsy female_d then Inr None
       else
         let male_data = the male_d; female_data = the female_d;
             male_val = val (last male_data);
             female_val = val (last female_data) in
         if male_val = 0 then Inr None
         else
           let gap = ((male_val - female_val) / male_val) * 100 in
           on_ok (get_yoy_index male_data) (\<lambda>yoy_idx.
           on_ok (pair_detail (\<lambda>m f. ((m - f) / m) * 100) gap (direction cfg)
                    male_data female_data yoy_idx) (\<lambda>dc.
           on_ok (on_ok (is_annual male_data) (\<lambda>a.
                    if a then Inr (take 4 (date (last male_data)))
                    else format_period (date (last male_data)) False)) (\<lambda>p.
             Inr (Some \<lparr>value_text = format_value cfg gap,
                        detail = fst dc, detail_color = snd dc, period = p\<rparr>)))))"

fun latest_values :: "all_data \<Rightarrow> vector_ref list \<Rightarrow> real list option" where
  \<comment> \<open>The loops that read \<open>data[-1]["value"]\<close> of every vector, in order; \<open>None\<close> when a
      vector has no data, where the strategy returns \<open>None\<close>.\<close>
  "latest_values ad [] = Some []"
| "latest_values ad (v # vs) =
     (case ad (vec_id v) of
        None \<Rightarrow> None
      | Some data \<Rightarrow>
          if data = [] then None
          else (case latest_values ad vs of
                  None \<Rightarrow> None
                | Some r \<Rightarrow> Some (val (last data) # r)))"

fun prev_values :: "all_data \<Rightarrow> int \<Rightarrow> vector_ref list \<Rightarrow> error + real list option" where
  \<comment> \<open>The loops that read \<open>data[yoy_idx]["value"]\<close> of every vector; \<open>None\<close> when the
      loop breaks on a vector that is absent or shorter than \<open>abs(yoy_idx)\<close>.\<close>
  "prev_values ad i [] = Inr (Some [])"
| "prev_values ad i (v # vs) =
     (case ad (vec_id v) of
        None \<Rightarrow> Inr None
      | Some data \<Rightarrow>
          if data \<noteq> [] \<and> idx_fits data i then
            on_ok (py_get data i) (\<lambda>ob.
            on_ok (prev_values ad i vs) (\<lambda>r.
              Inr (case r of None \<Rightarrow> None | Some xs \<Rightarrow> Some (val ob # xs))))
          else Inr None)"

definition weighted_sum :: "real list \<Rightarrow> real list \<Rightarrow> real" where
  \<comment> \<open>\<open>sum(v * w for v, w in zip(values, weights))\<close>\<close>
  "weighted_sum vs ws = sum_list (map (\<lambda>(v, w). v * w) (zip vs ws))"

definition ref_series :: "all_data \<Rightarrow> vector_ref \<Rightarrow> error + series" where
  \<comment> \<open>The reference series handed to the classifier; \<open>len(None)\<close> would raise TypeError.\<close>
  "ref_series ad v = (case ad (vec_id v) of None \<Rightarrow> Inl TypeError | Some data \<Rightarrow> Inr data)"

definition compute_composite_avg :: "config \<Rightarrow> all_data \<Rightarrow> error + result option" where
  "compute_composite_avg cfg ad =
     (case latest_values ad (vectors cfg) of
        None \<Rightarrow> Inr None
      | Some values \<Rightarrow>
          (case (case population_vectors cfg of
                   Some pvs \<Rightarrow> latest_values ad pvs
                 | None \<Rightarrow> Some (replicate (length values) 1)) of
             None \<Rightarrow> Inr None
           | Some weights \<Rightarrow>
               let total_weight = sum_list weights in
               if total_weight = 0 then Inr None
               else
                 let avg = weighted_sum values weights / total_weight in
                 on_ok (py_get (vectors cfg) 0) (\<lambda>v0.
                 on_ok (ref_series ad v0) (\<lambda>ref_data.
                 on_ok (get_yoy_index ref_data) (\<lambda>yoy_idx.
                 on_ok (case yoy_idx of
                          None \<Rightarrow> Inr ([], ''neutral'')
                        | Some i \<Rightarrow>
                            on_ok (prev_values ad i (vectors cfg)) (\<lambda>pv.
                              case pv of
                                None \<Rightarrow> Inr ([], ''neutral'')
                              | Some prev \<Rightarrow>
                                  if prev = [] then Inr ([], ''neutral'')
                                  else
                                    let prev_avg = weighted_sum prev weights / total_weight;
                                        pp_change = avg - prev_avg
                                    in Inr (format_detail pp_change ''pp'' (direction cfg)))) (\<lambda>dc.
                 on_ok (period_mq ref_data) (\<lambda>p.
                   Inr (Some \<lparr>value_text = format_value cfg avg,
                              detail = fst dc, detail_color = snd dc, period = p\<rparr>))))))))"

definition compute_sum_yoy_pct :: "config \<Rightarrow> all_data \<Rightarrow> error + result option" where
  "compute_sum_yoy_pct cfg ad =
     (case latest_values ad (vectors cfg) of
        None \<Rightarrow> Inr None
      | Some values \<Rightarrow>
          let total = sum_list values in
          on_ok (py_get (vectors cfg) 0) (\<lambda>v0.
          on_ok (ref_series ad v0) (\<lambda>ref_data.
          on_ok (get_yoy_index ref_data) (\<lambda>yoy_idx.
          on_ok (case yoy_idx of
                   None \<Rightarrow> Inr ([], ''neutral'')
                 | Some i \<Rightarrow>
                     on_ok (prev_values ad i (vectors cfg)) (\<lambda>pv.
                       case pv of
                         None \<Rightarrow> Inr ([], ''neutral'')
                       | Some prev \<Rightarrow>
                           let prev_total = sum_list prev in
                           if prev_total \<noteq> 0 then
                             Inr (format_detail ((total / prev_total - 1) * 100) ''%'' (direction cfg))
                           else Inr ([], ''neutral''))) (\<lambda>dc.
          on_ok (period_mq ref_data) (\<lambda>p.
            Inr (Some \<lparr>value_text = format_value cfg total,
                       detail = fst dc, detail_color = snd dc, period = p\<rparr>)))))))"

definition compute_combined_rate :: "config \<Rightarrow> all_data \<Rightarrow> error + result option" where
  "compute_combined_rate cfg ad =
     (let num_vecs = filter (\<lambda>v. role v = Some ''numerator'') (vectors cfg);
          den_vecs = filter (\<lambda>v. role v = Some ''denominator'') (vectors cfg)
      in if num_vecs = [] \<or> den_vecs = [] then Inr None
         else
           (case latest_values ad num_vecs of
              None \<Rightarrow> Inr None
            | Some nums \<Rightarrow>
                (case latest_values ad den_vecs of
                   None \<Rightarrow> Inr None
                 | Some dens \<Rightarrow>
                     let num_total = sum_list nums; den_total = sum_list dens in
                     if den_total = 0 then Inr None
                     else
                       let rate = (num_total / den_total) * 100 in
                       on_ok (py_get num_vecs 0) (\<lambda>v0.
                       on_ok (ref_series ad v0) (\<lambda>ref_data.
                       on_ok (get_yoy_index ref_data) (\<lambda>yoy_idx.
                       on_ok (case yoy_idx of
                                None \<Rightarrow> Inr ([], ''neutral'')
                              | Some i \<Rightarrow>
                                  on_ok (prev_values ad i num_vecs) (\<lambda>pn.
                                  on_ok (prev_values ad i den_vecs) (\<lambda>pd.
                                    case (pn, pd) of
                                      (Some prev_n, Some prev_d) \<Rightarrow>
                                        let prev_num = sum_list prev_n; prev_den = sum_list prev_d in
                                        if prev_den \<noteq> 0 then
                                          let prev_rate = (prev_num / prev_den) * 100;
                                              pp_change = rate - prev_rate
                                          in Inr (format_detail pp_change ''pp'' (direction cfg))
                                        else Inr ([], ''neutral'')
                                    | _ \<Rightarrow> Inr ([], ''neutral'')))) (\<lambda>dc.
                       on_ok (period_mq ref_data) (\<lambda>p.
                         Inr (Some \<lparr>value_text = format_value cfg rate,
                                    detail = fst dc, detail_color = snd dc, period = p\<rparr>)))))))))"

definition COMPUTE_FUNCTIONS ::
  "string \<Rightarrow> (config \<Rightarrow> all_data \<Rightarrow> error + result option) option" where
  "COMPUTE_FUNCTIONS = map_of
     [(''rate_yoy_pp'', compute_rate_yoy_pp),
      (''level_yoy_pct'', compute_level_yoy_pct),
      (''level_qoq_pct'', compute_level_qoq_pct),
      (''count_yoy_pct'', compute_count_yoy_pct),
      (''share_pct'', compute_share_pct),
      (''wage_gap'', compute_wage_gap),
      (''composite_avg'', compute_composite_avg),
      (''sum_yoy_pct'', compute_sum_yoy_pct),
      (''combined_rate'', compute_combined_rate)]"

section \<open>The fetch layer (fetch_minister_data.py)\<close>

text \<open>
  What the data service answers to one request. \<open>Failure\<close> is \<open>requests.post\<close> raising
  (connection error, timeout). A response has a status code and a body: \<open>Unreadable\<close> is
  a body on which \<open>resp.json()\<close> or the walk through the document raises, \<open>Empty\<close> a
  document that is falsy (\<open>[]\<close>, \<open>null\<close>), \<open>Document\<close> the first entry of the list with
  its \<open>status\<close> and its \<open>object.vectorDataPoint\<close> list (\<open>[]\<close> when absent).
  The \<open>value\<close> of a data point is null, something \<open>float()\<close> converts, or something
  on which \<open>float()\<close> raises.
\<close>

datatype point_value = Null | Num real | Bad

record point =
  refPer :: "string option"
  pvalue :: point_value

record entry =
  status :: "string option"
  vectorDataPoint :: "point list"

datatype body = Unreadable | Empty | Document entry

datatype reply = Failure | Response int body

fun collect_points :: "point list \<Rightarrow> error + series" where
  \<comment> \<open>The loop over \<open>points\<close>: a point is kept when \<open>ref and val is not None\<close>.\<close>
  "collect_points [] = Inr []"
| "collect_points (p # ps) =
     (case (refPer p, pvalue p) of
        (Some r, Num x) \<Rightarrow>
          if r \<noteq> [] then on_ok (collect_points ps) (\<lambda>ds. Inr (\<lparr>date = r, val = x\<rparr> # ds))
          else collect_points ps
      | (Some r, Bad) \<Rightarrow> if r \<noteq> [] then Inl ValueError else collect_points ps
      | _ \<Rightarrow> collect_points ps)"

text \<open>
  The state threaded through a fetch is the list of \<open>time.sleep\<close> calls made so far
  (their durations in seconds). \<open>fetch_attempts\<close> is the loop \<open>for attempt in range(3)\<close>,
  over the attempt numbers still to run.
\<close>

fun fetch_attempts :: "(nat \<Rightarrow> reply) \<Rightarrow> nat list \<Rightarrow> nat list \<Rightarrow> series option \<times> nat list" where
  "fetch_attempts service [] sleeps = (None, sleeps)"
| "fetch_attempts service (attempt # rest) sleeps =
     (case service attempt of
        Failure \<Rightarrow> fetch_attempts service rest (sleeps @ [5])
      | Response status_code b \<Rightarrow>
          if status_code \<noteq> 200 then fetch_attempts service rest (sleeps @ [5])
          else
            (case b of
               Unreadable \<Rightarrow> fetch_attempts service rest (sleeps @ [5])
             | Empty \<Rightarrow> (None, sleeps)
             | Document e \<Rightarrow>
                 if status e = Some ''FAILED'' then (None, sleeps)
                 else
                   (case collect_points (vectorDataPoint e) of
                      Inl err \<Rightarrow> fetch_attempts service rest (sleeps @ [5])
                    | Inr data \<Rightarrow>
                        let sorted_data = sort_key date data
                        in (if sorted_data = [] then None else Some sorted_data, sleeps))))"

definition fetch_vector ::
  "string \<Rightarrow> nat \<Rightarrow> (int \<Rightarrow> nat \<Rightarrow> nat \<Rightarrow> reply) \<Rightarrow> error + (series option \<times> nat list)" where
  \<comment> \<open>\<open>service vid latestN k\<close> is the answer to the \<open>k\<close>-th request of this call. The result is
      the returned value with the sleeps made; \<open>int(...)\<close> is outside the \<open>try\<close>.\<close>
  "fetch_vector vector_id n service =
     on_ok (py_int (filter (\<lambda>c. c \<noteq> CHR ''v'') vector_id)) (\<lambda>vid.
       Inr (fetch_attempts (service vid n) [0 ..< 3] []))"

section \<open>Reading the official data files (build_site.py)\<close>

text \<open>
  A row of \<open>csv.DictReader\<close>: under a column name there is a text, or \<open>None\<close> (a row
  shorter than the header), or the file has no such column.
\<close>

datatype cell = NoColumn | NoValue | Text string

record csv_row =
  date_cell :: cell
  value_cell :: cell

definition cell_text :: "cell \<Rightarrow> string option" where
  \<comment> \<open>\<open>row.get(name)\<close> and \<open>row.get(name, "")\<close>, up to truthiness.\<close>
  "cell_text c = (case c of Text s \<Rightarrow> Some s | _ \<Rightarrow> None)"


definition float_of :: "(string \<Rightarrow> real option) \<Rightarrow> cell \<Rightarrow> error + real" where
  \<comment> \<open>\<open>float(row['value'])\<close>; \<open>pyfloat\<close> is Python's \<open>float\<close> on strings, \<open>None\<close> where it
      raises ValueError.\<close>
  "float_of pyfloat c =
     (case c of
        NoColumn \<Rightarrow> Inl KeyError
      | NoValue \<Rightarrow> Inl TypeError
      | Text s \<Rightarrow> (case pyfloat s of None \<Rightarrow> Inl ValueError | Some x \<Rightarrow> Inr x))"


fun starts_with :: "string \<Rightarrow> string \<Rightarrow> bool" where
  "starts_with [] s = True"
| "starts_with (p # ps) [] = False"
| "starts_with (p # ps) (c # cs) = (p = c \<and> starts_with ps cs)"

fun contains :: "string \<Rightarrow> string \<Rightarrow> bool" where
  \<comment> \<open>\<open>p in s\<close>\<close>
  "contains p [] = (p = [])"
| "contains p (c # cs) = (starts_with p (c # cs) \<or> contains p cs)"

definition lower :: "string \<Rightarrow> string" where
  \<comment> \<open>\<open>str.lower()\<close> on ASCII.\<close>
  "lower s = map (\<lambda>c. if CHR ''A'' \<le> c \<and> c \<le> CHR ''Z'' then char_of (of_char c + (32::nat)) else c) s"

record indicator =
  frequency :: string
  unit :: string

datatype extra = NoExtra | Yoy_growth "real option" | Yoy_pp_change "real option"
  | Yoy_change_millions "real option"

text \<open>
  The dict that \<open>read_official_data\<close> returns: the keys date, period, value, secondary and
  absolute, and the one further key that some branches add.
\<close>

record official =
  date_o :: "string option"
  period_o :: "string option"
  value_o :: "real option"
  secondary :: "real option"
  absolute :: real
  extra_key :: extra

definition growth :: "real \<Rightarrow> real \<Rightarrow> real" where
  \<comment> \<open>\<open>((latest / prev) - 1) * 100 if prev != 0 else 0\<close>\<close>
  "growth latest prev = (if prev \<noteq> 0 then (latest / prev - 1) * 100 else 0)"

definition row_date :: "csv_row \<Rightarrow> error + string option" where
  \<comment> \<open>\<open>latest["date"]\<close>\<close>
  "row_date row =
     (case date_cell row of NoColumn \<Rightarrow> Inl KeyError | NoValue \<Rightarrow> Inr None | Text s \<Rightarrow> Inr (Some s))"

definition slice_of :: "string option \<Rightarrow> (string \<Rightarrow> string) \<Rightarrow> error + string" where
  \<comment> \<open>A slice of \<open>latest_date\<close>; slicing \<open>None\<close> raises TypeError.\<close>
  "slice_of d f = (case d of None \<Rightarrow> Inl TypeError | Some s \<Rightarrow> Inr (f s))"

definition lookback :: "(string \<Rightarrow> real option) \<Rightarrow> csv_row list \<Rightarrow> nat \<Rightarrow> error + real option" where
  \<comment> \<open>\<open>float(rows[-k]['value']) if len(rows) >= k else None\<close>, for \<open>k > 0\<close>\<close>
  "lookback pyfloat rows k =
     (if length rows \<ge> k then
        on_ok (py_get rows (- int k)) (\<lambda>row.
        on_ok (float_of pyfloat (value_cell row)) (\<lambda>x. Inr (Some x)))
      else Inr None)"

definition official_body ::
  "(string \<Rightarrow> real option) \<Rightarrow> indicator \<Rightarrow> csv_row list \<Rightarrow> error + official" where
  \<comment> \<open>The \<open>try\<close> block of \<open>read_official_data\<close>, on the rows kept (not empty).\<close>
  "official_body pyfloat ind rows =
     (let latest = last rows in
      on_ok (float_of pyfloat (value_cell latest)) (\<lambda>latest_value.
      on_ok (row_date latest) (\<lambda>latest_date.
        if frequency ind = ''Quarterly'' then
          on_ok (slice_of latest_date (take 4)) (\<lambda>year.
          on_ok (slice_of latest_date (\<lambda>s. take 2 (drop 5 s))) (\<lambda>mm.
          on_ok (py_int mm) (\<lambda>month.
            let period = year @ ''-Q'' @ str_int ((month - 1) div 3 + 1) in
            on_ok (lookback pyfloat rows 2) (\<lambda>prev_value.
              let qoq_growth = map_option (growth latest_value) prev_value in
              on_ok (lookback pyfloat rows 5) (\<lambda>year_ago_value.
                let yoy_growth = map_option (growth latest_value) year_ago_value in
                if contains ''C$'' (unit ind) \<or> contains ''dollars'' (lower (unit ind)) then
                  Inr \<lparr>date_o = latest_date, period_o = Some period, value_o = Some latest_value,
                       secondary = yoy_growth, absolute = latest_value,
                       extra_key = Yoy_growth yoy_growth\<rparr>
                else
                  Inr \<lparr>date_o = latest_date, period_o = Some period,
                       value_o = (if yoy_growth \<noteq> None then yoy_growth else qoq_growth),
                       secondary = qoq_growth, absolute = latest_value,
                       extra_key = NoExtra\<rparr>)))))
        else
          let is_daily = (frequency ind = ''Daily'') in
          on_ok (if is_daily then Inr latest_date
                 else on_ok (slice_of latest_date (take 7)) (\<lambda>s. Inr (Some s))) (\<lambda>period.
            let yoy_lookback = (if is_daily then 260 else 13) in
            on_ok (lookback pyfloat rows 2) (\<lambda>prev_value.
              let mom_growth = map_option (growth latest_value) prev_value;
                  mom_annualized =
                    (case mom_growth of
                       None \<Rightarrow> None
                     | Some g \<Rightarrow> if \<not> is_daily then Some (((1 + g / 100) ^ 12 - 1) * 100) else None)
              in
              on_ok (lookback pyfloat rows yoy_lookback) (\<lambda>year_ago_value.
                let yoy_growth = map_option (growth latest_value) year_ago_value;
                    yoy_pp_change = map_option (\<lambda>y. latest_value - y) year_ago_value
                in
                if unit ind = ''%'' then
                  Inr \<lparr>date_o = latest_date, period_o = period, value_o = Some latest_value,
                       secondary = yoy_pp_change, absolute = latest_value,
                       extra_key = Yoy_pp_change yoy_pp_change\<rparr>
                else if unit ind = ''C$ millions'' then
                  on_ok (lookback pyfloat rows 2) (\<lambda>p2.
                  on_ok (lookback pyfloat rows 13) (\<lambda>p13.
                    let monthly_change = map_option (\<lambda>y. latest_value - y) p2;
                        yoy_change = map_option (\<lambda>y. latest_value - y) p13
                    in Inr \<lparr>date_o = latest_date, period_o = period, value_o = Some latest_value,
                            secondary = monthly_change, absolute = latest_value,
                            extra_key = Yoy_change_millions yoy_change\<rparr>))
                else if contains ''C$'' (unit ind) \<or> contains ''dollars'' (lower (unit ind)) then
                  Inr \<lparr>date_o = latest_date, period_o = period, value_o = Some latest_value,
                       secondary = yoy_growth, absolute = latest_value,
                       extra_key = Yoy_growth yoy_growth\<rparr>
                else
                  Inr \<lparr>date_o = latest_date, period_o = period, value_o = yoy_growth,
                       secondary = mom_annualized, absolute = latest_value,
                       extra_key = NoExtra\<rparr>))))))"

definition kept :: "csv_row \<Rightarrow> bool" where
  \<comment> \<open>\<open>row.get('value') and row['value'].strip()\<close>\<close>
  "kept row = (case cell_text (value_cell row) of None \<Rightarrow> False | Some v \<Rightarrow> v \<noteq> [] \<and> strip v \<noteq> [])"

definition read_official_data ::
  "(string \<Rightarrow> real option) \<Rightarrow> indicator \<Rightarrow> csv_row list option \<Rightarrow> error + official option" where
  "read_official_data pyfloat ind file =
     (case file of
        None \<Rightarrow> Inr None
      | Some reader \<Rightarrow>
          let rows = filter kept reader in
          if rows = [] then Inr None
          else
            (case official_body pyfloat ind rows of
               Inr r \<Rightarrow> Inr (Some r)
             | Inl e \<Rightarrow> if e \<in> {KeyError, ValueError, TypeError} then Inr None else Inl e))"

definition get_change_sentiment :: "string \<Rightarrow> real option \<Rightarrow> string" where
  "get_change_sentiment indicator_key change_value =
     (case change_value of
        None \<Rightarrow> ''neutral''
      | Some c \<Rightarrow>
          let is_increase = (c > 0);
              positive_growth_indicators =
                [''gdp'', ''gdp_percapita'', ''employment_rate'', ''participation_rate'',
                 ''wages'', ''housing_starts'', ''trade'', ''exports'', ''retail'',
                 ''manufacturing'', ''business_investment''];
              negative_growth_indicators =
                [''unemployment'', ''ei'', ''inflation'', ''cpi_shelter'', ''cpi_food'',
                 ''cpi_transport''];
              neutral_indicators =
                [''population'', ''immigration'', ''emigration'', ''policy_rate'', ''bond_5y'',
                 ''bond_10y'', ''hours_worked'', ''jobvacancy'', ''housing'', ''imports'']
          in if indicator_key \<in> set positive_growth_indicators then
               (if is_increase then ''positive'' else ''negative'')
             else if indicator_key \<in> set negative_growth_indicators then
               (if is_increase then ''negative'' else ''positive'')
             else if indicator_key \<in> set neutral_indicators then ''neutral''
             else (if is_increase then ''positive'' else ''negative''))"

section \<open>Example data\<close>

definition two_points :: "string \<Rightarrow> string \<Rightarrow> series" where
  \<comment> \<open>A series of two observations with the given dates.\<close>
  "two_points a b = [\<lparr>date = a, val = 1\<rparr>, \<lparr>date = b, val = 2\<rparr>]"

definition vec :: "string \<Rightarrow> vector_ref" where
  \<comment> \<open>A vector reference without label and role, as most metrics have it.\<close>
  "vec i = \<lparr>vec_id = i, periods = 24, label = None, role = None\<rparr>"

definition example_cfg :: "string \<Rightarrow> vector_ref list \<Rightarrow> config" where
  \<comment> \<open>A metric with the template \<open>"{:.1f}"\<close> and no optional key.\<close>
  "example_cfg dir vs =
     \<lparr>vectors = vs, population_vectors = None, compute = [], direction = dir,
      format_value = fmt_1f, scalar = None, period_format = None\<rparr>"

definition annual_data :: all_data where
  "annual_data = [''v1'' \<mapsto> two_points ''2023-01-01'' ''2024-02-05'']"

section \<open>Notions used to state the properties\<close>

definition retryable :: "reply \<Rightarrow> bool" where
  \<comment> \<open>The answers after which \<open>fetch_attempts\<close> sleeps and goes on: the request raised, the
      status is not 200, or reading the answer raised.\<close>
  "retryable r =
     (case r of
        Failure \<Rightarrow> True
      | Response code b \<Rightarrow>
          code \<noteq> 200 \<or>
          (case b of
             Unreadable \<Rightarrow> True
           | Empty \<Rightarrow> False
           | Document e \<Rightarrow> status e \<noteq> Some ''FAILED'' \<and> isl (collect_points (vectorDataPoint e))))"

definition failed_then_good :: "int \<Rightarrow> nat \<Rightarrow> nat \<Rightarrow> reply" where
  \<comment> \<open>A service that answers the first request with a FAILED status and every later one
      with one data point.\<close>
  "failed_then_good vid n k =
     (if k = 0 then Response 200 (Document \<lparr>status = Some ''FAILED'', vectorDataPoint = []\<rparr>)
      else Response 200 (Document \<lparr>status = Some ''SUCCESS'',
             vectorDataPoint = [\<lparr>refPer = Some ''2024-01-01'', pvalue = Num 7\<rparr>]\<rparr>))"

definition down_twice :: "int \<Rightarrow> nat \<Rightarrow> nat \<Rightarrow> reply" where
  \<comment> \<open>A service that is unreachable, then answers 503, then answers with two data points.\<close>
  "down_twice vid n k =
     (if k = 0 then Failure
      else if k = 1 then Response 503 Empty
      else Response 200 (Document \<lparr>status = Some ''SUCCESS'',
             vectorDataPoint = [\<lparr>refPer = Some ''2024-02-01'', pvalue = Num 8\<rparr>,
                                \<lparr>refPer = Some ''2024-01-01'', pvalue = Num 7\<rparr>]\<rparr>))"


definition digits_float :: "string \<Rightarrow> real option" where
  \<comment> \<open>\<open>float()\<close> on the unsigned digit strings, rejecting everything else: enough for the
      example files below.\<close>
  "digits_float s = (if s \<noteq> [] \<and> list_all is_digit s then Some (real (digits_val 0 s)) else None)"

definition csv :: "string \<Rightarrow> string \<Rightarrow> csv_row" where
  "csv d v = \<lparr>date_cell = Text d, value_cell = Text v\<rparr>"


definition monthly_growth :: indicator where
  "monthly_growth = \<lparr>frequency = ''Monthly'', unit = ''% y/y''\<rparr>"

definition zero_base_file :: "csv_row list" where
  \<comment> \<open>Thirteen monthly rows of which the first, the year-ago row of the last, is zero.\<close>
  "zero_base_file = csv ''2023-01-01'' ''0'' # replicate 11 (csv ''2023-06-01'' ''5'') @ [csv ''2024-01-01'' ''5'']"

definition zero_base_data :: all_data where
  \<comment> \<open>An annual series whose year-ago value is zero.\<close>
  "zero_base_data = [''v1'' \<mapsto> [\<lparr>date = ''2023-01-01'', val = 0\<rparr>, \<lparr>date = ''2024-02-05'', val = 2\<rparr>]]"

definition monthly_13 :: series where
  \<comment> \<open>Thirteen monthly observations, January 2023 to January 2024: 100, eleven times 105, 110.\<close>
  "monthly_13 =
     \<lparr>date = ''2023-01-01'', val = 100\<rparr> #
     map (\<lambda>d. \<lparr>date = d, val = 105\<rparr>)
       [''2023-02-01'', ''2023-03-01'', ''2023-04-01'', ''2023-05-01'', ''2023-06-01'',
        ''2023-07-01'', ''2023-08-01'', ''2023-09-01'', ''2023-10-01'', ''2023-11-01'',
        ''2023-12-01''] @
     [\<lparr>date = ''2024-01-01'', val = 110\<rparr>]"



definition joint :: "string \<Rightarrow> string \<Rightarrow> string \<Rightarrow> bool" where
  \<comment> \<open>Detail and colour of a result go together: both blank (empty, neutral), or a detail
      that starts with the arrow of some change and the colour that the direction gives to
      the same change.\<close>
  "joint dir d c =
     ((d = [] \<and> c = ''neutral'') \<or>
      (d \<noteq> [] \<and> (\<exists>x. c = snd (format_detail x ''%'' dir) \<and>
                         take 3 d = (if 0 \<le> x then arrow_up else arrow_down))))"

definition no_lookback :: "config \<Rightarrow> all_data \<Rightarrow> bool" where
  \<comment> \<open>No series of the metric has a year-ago index: each is too short for its cadence.\<close>
  "no_lookback cfg ad =
     list_all (\<lambda>v. case ad (vec_id v) of None \<Rightarrow> True | Some data \<Rightarrow> get_yoy_index data = Inr None)
       (vectors cfg)"

definition short_data :: all_data where
  \<comment> \<open>Two monthly series of two observations: no year-ago observation.\<close>
  "short_data = [''v1'' \<mapsto> two_points ''2024-01-01'' ''2024-01-31'',
                 ''v2'' \<mapsto> two_points ''2024-01-01'' ''2024-01-31'']"

definition latest_of :: "all_data \<Rightarrow> vector_ref \<Rightarrow> real" where
  \<comment> \<open>The latest value of a vector's series, for a series that is present and not empty.\<close>
  "latest_of ad v = val (last (the (ad (vec_id v))))"

definition pts :: "real \<Rightarrow> real \<Rightarrow> series" where
  \<comment> \<open>Two monthly observations, January and February 2024.\<close>
  "pts x y = [\<lparr>date = ''2024-01-01'', val = x\<rparr>, \<lparr>date = ''2024-02-01'', val = y\<rparr>]"

definition role_vec :: "string \<Rightarrow> string \<Rightarrow> vector_ref" where
  "role_vec i r = \<lparr>vec_id = i, periods = 24, label = None, role = Some r\<rparr>"

definition combined_cfg :: config where
  \<comment> \<open>Three numerator and three denominator vectors.\<close>
  "combined_cfg = example_cfg ''positive''
     [role_vec ''n1'' ''numerator'', role_vec ''n2'' ''numerator'', role_vec ''n3'' ''numerator'',
      role_vec ''d1'' ''denominator'', role_vec ''d2'' ''denominator'',
      role_vec ''d3'' ''denominator'']"

definition combined_data :: all_data where
  \<comment> \<open>Latest numerators 10, 5, 2 and latest denominators 50, 25, 10.\<close>
  "combined_data =
     [''n1'' \<mapsto> pts 9 10, ''n2'' \<mapsto> pts 4 5, ''n3'' \<mapsto> pts 1 2,
      ''d1'' \<mapsto> pts 49 50, ''d2'' \<mapsto> pts 24 25, ''d3'' \<mapsto> pts 9 10]"

fun own_prev_values :: "all_data \<Rightarrow> vector_ref list \<Rightarrow> error + real list option" where
  \<comment> \<open>The reading of the specification in which every input series has its own year-ago
      lookback index: the value of each series at the index that \<open>get_yoy_index\<close> gives
      for that series; \<open>None\<close> when a series is absent or has no such index.\<close>
  "own_prev_values ad [] = Inr (Some [])"
| "own_prev_values ad (v # vs) =
     (case ad (vec_id v) of
        None \<Rightarrow> Inr None
      | Some data \<Rightarrow>
          on_ok (get_yoy_index data) (\<lambda>yi.
            case yi of
              None \<Rightarrow> Inr None
            | Some i \<Rightarrow>
                on_ok (py_get data i) (\<lambda>ob.
                on_ok (own_prev_values ad vs) (\<lambda>r.
                  Inr (case r of None \<Rightarrow> None | Some xs \<Rightarrow> Some (val ob # xs))))))"

definition value_back :: "all_data \<Rightarrow> int \<Rightarrow> vector_ref \<Rightarrow> real" where
  \<comment> \<open>The value of a vector's series at a negative index, counted from the end of that
      series.\<close>
  "value_back ad i v = val (the (ad (vec_id v)) ! (length (the (ad (vec_id v))) - nat (- i)))"

definition get_weights :: "config \<Rightarrow> all_data \<Rightarrow> real list" where
  \<comment> \<open>The weights of composite_avg when every series is present: the latest values of the
      population vectors, or 1 for every vector.\<close>
  "get_weights cfg ad =
     (case population_vectors cfg of
        None \<Rightarrow> replicate (length (vectors cfg)) 1
      | Some pvs \<Rightarrow> map (latest_of ad) pvs)"

definition quarterly_13 :: series where
  \<comment> \<open>Thirteen quarterly observations, January 2021 to January 2024: 10, then 15 seven times,
      then 20 five times.\<close>
  "quarterly_13 =
     \<lparr>date = ''2021-01-01'', val = 10\<rparr> #
     map (\<lambda>d. \<lparr>date = d, val = 15\<rparr>)
       [''2021-04-01'', ''2021-07-01'', ''2021-10-01'', ''2022-01-01'', ''2022-04-01'',
        ''2022-07-01'', ''2022-10-01''] @
     map (\<lambda>d. \<lparr>date = d, val = 20\<rparr>)
       [''2023-01-01'', ''2023-04-01'', ''2023-07-01'', ''2023-10-01'', ''2024-01-01'']"

definition mixed_data :: all_data where
  \<comment> \<open>A monthly series first, a quarterly series second.\<close>
  "mixed_data = [''v1'' \<mapsto> monthly_13, ''v2'' \<mapsto> quarterly_13]"

definition mixed_cfg :: config where
  "mixed_cfg = example_cfg ''positive'' [vec ''v1'', vec ''v2'']"

definition weighted_cfg :: config where
  \<comment> \<open>The two series of \<open>mixed_cfg\<close> with population weights.\<close>
  "weighted_cfg = (example_cfg ''positive'' [vec ''v1'', vec ''v2''])
     \<lparr>population_vectors := Some [vec ''p1'', vec ''p2'']\<rparr>"

definition weighted_data :: all_data where
  \<comment> \<open>Latest populations 1 and 3.\<close>
  "weighted_data = mixed_data(''p1'' \<mapsto> pts 1 1, ''p2'' \<mapsto> pts 2 3)"

definition three_points :: "string \<Rightarrow> string \<Rightarrow> string \<Rightarrow> series" where
  \<comment> \<open>A series of three observations with the given dates.\<close>
  "three_points a b c = [\<lparr>date = a, val = 1\<rparr>, \<lparr>date = b, val = 2\<rparr>, \<lparr>date = c, val = 3\<rparr>]"

definition lookback_series :: "string \<Rightarrow> config \<Rightarrow> string option list" where
  \<comment> \<open>The series that a strategy reads at the year-ago index, the reference series (whose
      cadence gives the index) first. level_qoq_pct reads none: it compares with the previous
      observation.\<close>
  "lookback_series name cfg =
     (if name \<in> {''rate_yoy_pp'', ''level_yoy_pct'', ''count_yoy_pct''} then
        map (\<lambda>v. Some (vec_id v)) (take 1 (vectors cfg))
      else if name = ''share_pct'' then
        (case find_labels ''total_exports'' ''us_exports'' (vectors cfg) (None, None) of
           Inr (a, b) \<Rightarrow> [a, b] | Inl e \<Rightarrow> [])
      else if name = ''wage_gap'' then
        (case find_labels ''male_wage'' ''female_wage'' (vectors cfg) (None, None) of
           Inr (a, b) \<Rightarrow> [a, b] | Inl e \<Rightarrow> [])
      else if name \<in> {''composite_avg'', ''sum_yoy_pct''} then
        map (\<lambda>v. Some (vec_id v)) (vectors cfg)
      else if name = ''combined_rate'' then
        map (\<lambda>v. Some (vec_id v))
          (filter (\<lambda>v. role v = Some ''numerator'') (vectors cfg) @
           filter (\<lambda>v. role v = Some ''denominator'') (vectors cfg))
      else [])"

definition lookback_missing :: "string \<Rightarrow> config \<Rightarrow> all_data \<Rightarrow> bool" where
  \<comment> \<open>The lookback value needed for the comparison does not exist: the reference series is
      absent or has no year-ago index, or a series read at that index is absent or shorter
      than the index.\<close>
  "lookback_missing name cfg ad =
     (case map (get_data ad) (lookback_series name cfg) of
        [] \<Rightarrow> False
      | None # rest \<Rightarrow> True
      | Some ref # rest \<Rightarrow>
          (case get_yoy_index ref of
             Inl e \<Rightarrow> False
           | Inr None \<Rightarrow> True
           | Inr (Some i) \<Rightarrow>
               list_ex (\<lambda>d. case d of None \<Rightarrow> True | Some s \<Rightarrow> \<not> idx_fits s i) rest))"

definition uneven_data :: all_data where
  \<comment> \<open>A first series of thirteen months and a second of two observations.\<close>
  "uneven_data = [''v1'' \<mapsto> monthly_13, ''v2'' \<mapsto> pts 1 2]"

definition one_each_cfg :: config where
  \<comment> \<open>One numerator and one denominator vector.\<close>
  "one_each_cfg = example_cfg ''positive''
     [role_vec ''n1'' ''numerator'', role_vec ''d1'' ''denominator'']"

definition zero_den_data :: all_data where
  \<comment> \<open>Annual series; the year-ago denominator is zero.\<close>
  "zero_den_data =
     [''n1'' \<mapsto> [\<lparr>date = ''2023-01-01'', val = 3\<rparr>, \<lparr>date = ''2024-02-05'', val = 4\<rparr>],
      ''d1'' \<mapsto> [\<lparr>date = ''2023-01-01'', val = 0\<rparr>, \<lparr>date = ''2024-02-05'', val = 8\<rparr>]]"

section \<open>Properties\<close>

lemma on_ok_Inl [simp]: "on_ok (Inl e) f = Inl e"
  by (simp add: on_ok_def)

lemma on_ok_Inr [simp]: "on_ok (Inr v) f = f v"
  by (simp add: on_ok_def)

subsection \<open>The frequency classifier\<close>

lemma gap_400: "last_gap (two_points ''2023-01-01'' ''2024-02-05'') = Inr 400"
  by code_simp

lemma gap_90: "last_gap (two_points ''2024-01-01'' ''2024-03-31'') = Inr 90"
  by code_simp

lemma gap_30: "last_gap (two_points ''2024-01-01'' ''2024-01-31'') = Inr 30"
  by code_simp

text \<open>
  C3. For a series whose last two observations \<open>data[-1]\<close> and \<open>data[-2]\<close> exist (so it has at
  least two observations) and whose dates parse to the days \<open>d1\<close> and \<open>d2\<close>, the
  classification depends only on the gap \<open>d1 - d2\<close> between these two, whatever the
  earlier observations are: \<open>is_annual\<close> holds exactly when the gap exceeds 300,
  \<open>is_quarterly\<close> exactly when it exceeds 60, and \<open>get_yoy_index\<close> takes the Annual branch
  for a gap above 300, the Quarterly branch for a gap above 60 and at most 300, and the
  Monthly branch for every smaller gap.
\<close>

theorem cadence_by_last_gap:
  assumes "py_get data (- 1) = Inr latest" and "py_get data (- 2) = Inr previous"
    and "strptime (take 10 (date latest)) = Inr d1"
    and "strptime (take 10 (date previous)) = Inr d2"
  shows "is_annual data = Inr (300 < d1 - d2) \<and> is_quarterly data = Inr (60 < d1 - d2) \<and>
         get_yoy_index data =
           Inr (if 300 < d1 - d2 then Some (- 2)
                else if 60 < d1 - d2 then (if 5 \<le> length data then Some (- 5) else None)
                else (if 13 \<le> length data then Some (- 13) else None))"
proof -
  from assms(2) have len: "2 \<le> length data"
    by (auto simp: py_get_def split: if_split_asm)
  with assms(1,2) have "latest = data ! (length data - 1)" "previous = data ! (length data - 2)"
    by (auto simp: py_get_def split: if_split_asm)
  with assms(3,4) have "last_gap data = Inr (d1 - d2)"
    by (simp add: last_gap_def)
  with len show ?thesis
    by (simp add: is_annual_def is_quarterly_def get_yoy_index_def)
qed

lemma three_400:
  "py_get (three_points ''2020-01-01'' ''2023-01-01'' ''2024-02-05'') (- 1) =
     Inr \<lparr>date = ''2024-02-05'', val = 3\<rparr> \<and>
   py_get (three_points ''2020-01-01'' ''2023-01-01'' ''2024-02-05'') (- 2) =
     Inr \<lparr>date = ''2023-01-01'', val = 2\<rparr> \<and>
   strptime (take 10 ''2024-02-05'') = Inr 738921 \<and>
   strptime (take 10 ''2023-01-01'') = Inr 738521 \<and>
   strptime (take 10 ''2020-01-01'') = Inr 737425"
  by code_simp

lemma three_90:
  "py_get (three_points ''2020-01-01'' ''2024-01-01'' ''2024-03-31'') (- 1) =
     Inr \<lparr>date = ''2024-03-31'', val = 3\<rparr> \<and>
   py_get (three_points ''2020-01-01'' ''2024-01-01'' ''2024-03-31'') (- 2) =
     Inr \<lparr>date = ''2024-01-01'', val = 2\<rparr> \<and>
   strptime (take 10 ''2024-03-31'') = Inr 738976 \<and>
   strptime (take 10 ''2024-01-01'') = Inr 738886"
  by code_simp

lemma three_30:
  "py_get (three_points ''2020-01-01'' ''2024-01-01'' ''2024-01-31'') (- 1) =
     Inr \<lparr>date = ''2024-01-31'', val = 3\<rparr> \<and>
   py_get (three_points ''2020-01-01'' ''2024-01-01'' ''2024-01-31'') (- 2) =
     Inr \<lparr>date = ''2024-01-01'', val = 2\<rparr> \<and>
   strptime (take 10 ''2024-01-31'') = Inr 738916"
  by code_simp

lemma monthly_13_ends:
  "py_get monthly_13 (- 1) = Inr \<lparr>date = ''2024-01-01'', val = 110\<rparr> \<and>
   py_get monthly_13 (- 2) = Inr \<lparr>date = ''2023-12-01'', val = 105\<rparr> \<and>
   strptime (take 10 ''2023-12-01'') = Inr 738855 \<and> length monthly_13 = 13"
  by code_simp

text \<open>
  Series of three observations that start in 2020 and whose last two dates are 400, 90 and
  30 days apart: Annual, Quarterly, Monthly, although the first and the last date are years
  apart. Thirteen months: Monthly, with the index \<open>-13\<close>.
\<close>

theorem cadence_by_last_gap_witness:
  "py_get (three_points ''2020-01-01'' ''2023-01-01'' ''2024-02-05'') (- 1) =
     Inr \<lparr>date = ''2024-02-05'', val = 3\<rparr> \<and>
   py_get (three_points ''2020-01-01'' ''2023-01-01'' ''2024-02-05'') (- 2) =
     Inr \<lparr>date = ''2023-01-01'', val = 2\<rparr> \<and>
   strptime (take 10 ''2024-02-05'') = Inr 738921 \<and>
   strptime (take 10 ''2023-01-01'') = Inr 738521 \<and>
   strptime (take 10 ''2020-01-01'') = Inr 737425 \<and>
   is_annual (three_points ''2020-01-01'' ''2023-01-01'' ''2024-02-05'') = Inr True \<and>
   get_yoy_index (three_points ''2020-01-01'' ''2023-01-01'' ''2024-02-05'') = Inr (Some (- 2)) \<and>
   is_annual (three_points ''2020-01-01'' ''2024-01-01'' ''2024-03-31'') = Inr False \<and>
   is_quarterly (three_points ''2020-01-01'' ''2024-01-01'' ''2024-03-31'') = Inr True \<and>
   get_yoy_index (three_points ''2020-01-01'' ''2024-01-01'' ''2024-03-31'') = Inr None \<and>
   is_annual (three_points ''2020-01-01'' ''2024-01-01'' ''2024-01-31'') = Inr False \<and>
   is_quarterly (three_points ''2020-01-01'' ''2024-01-01'' ''2024-01-31'') = Inr False \<and>
   is_annual monthly_13 = Inr False \<and> is_quarterly monthly_13 = Inr False \<and>
   get_yoy_index monthly_13 = Inr (Some (- 13))"
  using
    cadence_by_last_gap [of "three_points ''2020-01-01'' ''2023-01-01'' ''2024-02-05''"
      "\<lparr>date = ''2024-02-05'', val = 3\<rparr>" "\<lparr>date = ''2023-01-01'', val = 2\<rparr>" 738921 738521]
    cadence_by_last_gap [of "three_points ''2020-01-01'' ''2024-01-01'' ''2024-03-31''"
      "\<lparr>date = ''2024-03-31'', val = 3\<rparr>" "\<lparr>date = ''2024-01-01'', val = 2\<rparr>" 738976 738886]
    cadence_by_last_gap [of "three_points ''2020-01-01'' ''2024-01-01'' ''2024-01-31''"
      "\<lparr>date = ''2024-01-31'', val = 3\<rparr>" "\<lparr>date = ''2024-01-01'', val = 2\<rparr>" 738916 738886]
    cadence_by_last_gap [of monthly_13
      "\<lparr>date = ''2024-01-01'', val = 110\<rparr>" "\<lparr>date = ''2023-12-01'', val = 105\<rparr>" 738886 738855]
    three_400 three_90 three_30 monthly_13_ends
  by (simp add: three_points_def)

subsection \<open>Which exceptions the building blocks can raise\<close>

lemma on_ok_eq_Inl: "on_ok x f = Inl e \<longleftrightarrow> (x = Inl e \<or> (\<exists>v. x = Inr v \<and> f v = Inl e))"
  by (cases x) auto

lemma on_ok_eq_Inr: "on_ok x f = Inr r \<longleftrightarrow> (\<exists>v. x = Inr v \<and> f v = Inr r)"
  by (cases x) auto

lemma py_get_neg:
  "i < 0 \<Longrightarrow> - i \<le> int (length xs) \<Longrightarrow> py_get xs i = Inr (xs ! (length xs - nat (- i)))"
  by (simp add: py_get_def)

lemma py_get_fits:
  "i < 0 \<Longrightarrow> idx_fits xs i \<Longrightarrow> py_get xs i = Inr (xs ! (length xs - nat (- i)))"
  by (simp add: py_get_def idx_fits_def)

lemma py_get_first: "xs \<noteq> [] \<Longrightarrow> py_get xs 0 = Inr (hd xs)"
  by (cases xs) (simp_all add: py_get_def)

lemma py_div_err: "py_div a b = Inl e \<Longrightarrow> e = ZeroDivisionError"
  by (auto simp: py_div_def split: if_splits)

lemma py_int_err: "py_int s = Inl e \<Longrightarrow> e = ValueError"
  by (auto simp: py_int_def split: list.splits if_splits)

lemma strptime_err: "strptime s = Inl e \<Longrightarrow> e = ValueError"
  by (auto simp: strptime_def Let_def split: list.splits if_splits)

lemma last_gap_err: "last_gap data = Inl e \<Longrightarrow> e = ValueError"
  by (auto simp: last_gap_def split: sum.splits dest: strptime_err)

lemma is_annual_err: "is_annual data = Inl e \<Longrightarrow> e = ValueError"
  by (auto simp: is_annual_def split: sum.splits if_splits dest: last_gap_err)

lemma is_quarterly_err: "is_quarterly data = Inl e \<Longrightarrow> e = ValueError"
  by (auto simp: is_quarterly_def split: sum.splits if_splits dest: last_gap_err)

lemma get_yoy_index_err: "get_yoy_index data = Inl e \<Longrightarrow> e = ValueError"
  by (auto simp: get_yoy_index_def split: sum.splits if_splits bool.splits
      dest: is_annual_err is_quarterly_err)

lemma get_yoy_index_Some:
  "get_yoy_index data = Inr (Some i) \<Longrightarrow>
     (i = - 2 \<and> 2 \<le> length data) \<or> (i = - 5 \<and> 5 \<le> length data)
       \<or> (i = - 13 \<and> 13 \<le> length data)"
  by (auto simp: get_yoy_index_def split: sum.splits if_splits bool.splits)

lemma get_yoy_index_neg: "get_yoy_index data = Inr (Some i) \<Longrightarrow> i < 0"
  by (auto dest: get_yoy_index_Some)

lemma get_yoy_index_get:
  assumes "get_yoy_index data = Inr (Some i)"
  shows "py_get data i = Inr (data ! (length data - nat (- i)))"
  using get_yoy_index_Some [OF assms] by (auto simp: py_get_def)

lemma format_period_err: "format_period d q = Inl e \<Longrightarrow> e = ValueError"
  by (auto simp: format_period_def on_ok_eq_Inl split: if_splits dest: py_int_err)

lemma period_of_err: "period_of data = Inl e \<Longrightarrow> e = ValueError"
  by (auto simp: period_of_def on_ok_eq_Inl split: if_splits
      dest: is_annual_err is_quarterly_err format_period_err)

lemma period_mq_err: "period_mq data = Inl e \<Longrightarrow> e = ValueError"
  by (auto simp: period_mq_def on_ok_eq_Inl split: if_splits
      dest: is_quarterly_err format_period_err)

lemma find_labels_err: "find_labels la lb vs acc = Inl e \<Longrightarrow> e = KeyError"
  by (induction la lb vs acc rule: find_labels.induct) (auto split: option.splits if_splits)

lemma ref_series_err: "ref_series ad v = Inl e \<Longrightarrow> e = TypeError"
  by (auto simp: ref_series_def split: option.splits)

lemma prev_values_ok: "i < 0 \<Longrightarrow> \<exists>r. prev_values ad i vs = Inr r"
proof (induction vs)
  case Nil
  then show ?case by simp
next
  case (Cons v vs)
  then obtain r where r: "prev_values ad i vs = Inr r" by blast
  show ?case
  proof (cases "ad (vec_id v)")
    case None
    then show ?thesis by simp
  next
    case (Some data)
    then show ?thesis using r Cons.prems by (simp add: py_get_fits)
  qed
qed

lemma prev_values_no_err: "i < 0 \<Longrightarrow> prev_values ad i vs \<noteq> Inl e"
  using prev_values_ok [of i ad vs] by auto

lemma pair_detail_err:
  "get_yoy_index a = Inr yi \<Longrightarrow> pair_detail ratio now dir a b yi \<noteq> Inl e"
  by (auto simp: pair_detail_def on_ok_eq_Inl Let_def get_yoy_index_get py_get_fits
      split: option.splits if_splits dest!: get_yoy_index_Some)

subsection \<open>No strategy raises IndexError\<close>

lemma rate_no_index_error:
  "vectors cfg \<noteq> [] \<Longrightarrow> compute_rate_yoy_pp cfg ad \<noteq> Inl IndexError"
  by (auto simp: compute_rate_yoy_pp_def py_get_first on_ok_eq_Inl Let_def get_yoy_index_get
      split: option.splits if_splits dest: get_yoy_index_err period_of_err)

lemma level_no_index_error:
  "vectors cfg \<noteq> [] \<Longrightarrow> compute_level_yoy_pct cfg ad \<noteq> Inl IndexError"
  by (auto simp: compute_level_yoy_pct_def py_get_first on_ok_eq_Inl Let_def get_yoy_index_get
      split: option.splits if_splits dest: get_yoy_index_err period_of_err py_div_err)

lemma qoq_no_index_error:
  "vectors cfg \<noteq> [] \<Longrightarrow> compute_level_qoq_pct cfg ad \<noteq> Inl IndexError"
  by (auto simp: compute_level_qoq_pct_def py_get_first on_ok_eq_Inl Let_def py_get_neg
      split: option.splits if_splits dest: format_period_err py_div_err)

lemma share_no_index_error: "compute_share_pct cfg ad \<noteq> Inl IndexError"
  by (auto simp: compute_share_pct_def on_ok_eq_Inl Let_def pair_detail_err
      split: option.splits if_splits prod.splits
      dest: get_yoy_index_err period_mq_err find_labels_err)

lemma wage_no_index_error: "compute_wage_gap cfg ad \<noteq> Inl IndexError"
  by (auto simp: compute_wage_gap_def on_ok_eq_Inl Let_def pair_detail_err
      split: option.splits if_splits prod.splits
      dest: get_yoy_index_err is_annual_err format_period_err find_labels_err)

lemma composite_no_index_error:
  "vectors cfg \<noteq> [] \<Longrightarrow> compute_composite_avg cfg ad \<noteq> Inl IndexError"
  by (auto simp: compute_composite_avg_def py_get_first on_ok_eq_Inl Let_def prev_values_no_err
      split: option.splits if_splits
      dest: get_yoy_index_err period_mq_err ref_series_err get_yoy_index_neg)

lemma sum_no_index_error:
  "vectors cfg \<noteq> [] \<Longrightarrow> compute_sum_yoy_pct cfg ad \<noteq> Inl IndexError"
  by (auto simp: compute_sum_yoy_pct_def py_get_first on_ok_eq_Inl Let_def prev_values_no_err
      split: option.splits if_splits
      dest: get_yoy_index_err period_mq_err ref_series_err get_yoy_index_neg)

lemma combined_no_index_error: "compute_combined_rate cfg ad \<noteq> Inl IndexError"
  by (auto simp: compute_combined_rate_def py_get_first on_ok_eq_Inl Let_def prev_values_no_err
      split: option.splits if_splits
      dest: get_yoy_index_err period_mq_err ref_series_err get_yoy_index_neg)

lemma COMPUTE_FUNCTIONS_cases:
  assumes "COMPUTE_FUNCTIONS name = Some f"
  shows "f = compute_rate_yoy_pp \<or> f = compute_level_yoy_pct \<or> f = compute_level_qoq_pct
       \<or> f = compute_count_yoy_pct \<or> f = compute_share_pct \<or> f = compute_wage_gap
       \<or> f = compute_composite_avg \<or> f = compute_sum_yoy_pct \<or> f = compute_combined_rate"
  using assms by (auto simp: COMPUTE_FUNCTIONS_def split: if_splits)

text \<open>
  C10. \<open>get_yoy_index\<close> returns an index only when the series holds it: \<open>-2\<close> with at
  least 2 observations, \<open>-5\<close> with at least 5, \<open>-13\<close> with at least 13, and otherwise
  \<open>None\<close>; so \<open>data[yoy_idx]\<close> on the series the index came from is an observation of the
  series, and no compute strategy (on a metric with at least one vector) raises IndexError.
\<close>

theorem yoy_index_within_bounds:
  "(get_yoy_index data = Inr r \<longrightarrow>
      r = None \<or> (r = Some (- 2) \<and> 2 \<le> length data) \<or> (r = Some (- 5) \<and> 5 \<le> length data)
        \<or> (r = Some (- 13) \<and> 13 \<le> length data)) \<and>
   (get_yoy_index data = Inr (Some i) \<longrightarrow>
      py_get data i = Inr (data ! (length data - nat (- i))) \<and> nat (- i) \<le> length data
        \<and> 0 < nat (- i)) \<and>
   (COMPUTE_FUNCTIONS name = Some f \<and> vectors cfg \<noteq> [] \<longrightarrow> f cfg ad \<noteq> Inl IndexError)"
proof (intro conjI impI)
  assume "get_yoy_index data = Inr r"
  then show "r = None \<or> (r = Some (- 2) \<and> 2 \<le> length data) \<or> (r = Some (- 5) \<and> 5 \<le> length data)
        \<or> (r = Some (- 13) \<and> 13 \<le> length data)"
    by (cases r) (auto dest: get_yoy_index_Some)
next
  assume a: "get_yoy_index data = Inr (Some i)"
  show "py_get data i = Inr (data ! (length data - nat (- i)))"
    by (rule get_yoy_index_get [OF a])
  show "nat (- i) \<le> length data" using get_yoy_index_Some [OF a] by auto
  show "0 < nat (- i)" using get_yoy_index_Some [OF a] by auto
next
  assume "COMPUTE_FUNCTIONS name = Some f \<and> vectors cfg \<noteq> []"
  then have f: "COMPUTE_FUNCTIONS name = Some f" and v: "vectors cfg \<noteq> []" by simp_all
  from COMPUTE_FUNCTIONS_cases [OF f] v show "f cfg ad \<noteq> Inl IndexError"
    using rate_no_index_error [of cfg ad] level_no_index_error [of cfg ad]
      qoq_no_index_error [of cfg ad] share_no_index_error [of cfg ad]
      wage_no_index_error [of cfg ad] composite_no_index_error [of cfg ad]
      sum_no_index_error [of cfg ad] combined_no_index_error [of cfg ad]
    by (auto simp: compute_count_yoy_pct_def)
qed

lemma annual_index: "get_yoy_index (two_points ''2023-01-01'' ''2024-02-05'') = Inr (Some (- 2))"
  by (simp add: get_yoy_index_def is_annual_def gap_400) (simp add: two_points_def)

lemma rate_example:
  "compute_rate_yoy_pp (example_cfg ''positive'' [vec ''v1'']) annual_data =
     Inr (Some \<lparr>value_text = ''2.0'', detail = arrow_up @ '' 1.0 pp year over year'',
                detail_color = ''positive'', period = ''2024''\<rparr>)"
  by code_simp

theorem yoy_index_within_bounds_witness:
  "get_yoy_index (two_points ''2023-01-01'' ''2024-02-05'') = Inr (Some (- 2)) \<and>
   py_get (two_points ''2023-01-01'' ''2024-02-05'') (- 2) = Inr \<lparr>date = ''2023-01-01'', val = 1\<rparr> \<and>
   COMPUTE_FUNCTIONS ''rate_yoy_pp'' = Some compute_rate_yoy_pp \<and>
   vectors (example_cfg ''positive'' [vec ''v1'']) \<noteq> [] \<and>
   compute_rate_yoy_pp (example_cfg ''positive'' [vec ''v1'']) annual_data \<noteq> Inl IndexError"
  using yoy_index_within_bounds [of "two_points ''2023-01-01'' ''2024-02-05''" "Some (- 2)" "- 2"
      "''rate_yoy_pp''" compute_rate_yoy_pp "example_cfg ''positive'' [vec ''v1'']" annual_data]
    annual_index
  by (simp add: COMPUTE_FUNCTIONS_def example_cfg_def two_points_def)

subsection \<open>Sentiment resolution\<close>

text \<open>
  C7, as stated, fails at a change of exactly zero. Under direction \<open>negative\<close> an increase
  is coloured negative but a zero change is coloured positive (the test is \<open>change <= 0\<close>);
  and \<open>get_change_sentiment\<close> counts zero as no increase (the test is \<open>> 0\<close>), so for
  \<open>gdp\<close> an increase is positive and zero is negative.
\<close>

theorem sentiment_at_zero_counterexample:
  "snd (format_detail 1 ''pp'' ''negative'') = ''negative'' \<and>
   snd (format_detail 0 ''pp'' ''negative'') = ''positive'' \<and>
   snd (format_detail 0 ''pp'' ''negative'') \<noteq> snd (format_detail 1 ''pp'' ''negative'') \<and>
   get_change_sentiment ''gdp'' (Some 1) = ''positive'' \<and>
   get_change_sentiment ''gdp'' (Some 0) = ''negative''"
  by (simp add: format_detail_def get_change_sentiment_def)



lemma take_arrow: "take 3 (fst (format_detail change u dir)) = (if 0 \<le> change then arrow_up else arrow_down)"
  by (simp add: format_detail_def Let_def arrow_up_def arrow_down_def)

text \<open>
  C7, amended. In \<open>format_detail\<close> the sentiment is a lookup on the direction and the sign
  of the change: direction \<open>positive\<close> colours an increase positive and a decrease negative,
  direction \<open>negative\<close> colours an increase negative and a decrease positive, every other
  direction is neutral; a change of exactly zero is coloured positive under both directions,
  and the arrow points up exactly when the change is \<open>>= 0\<close>. \<open>get_change_sentiment\<close>
  depends on the change only through \<open>change > 0\<close>, so there zero is coloured as a decrease.
\<close>

theorem sentiment_by_direction_and_sign:
  "(0 < change \<longrightarrow> snd (format_detail change u ''positive'') = ''positive''
       \<and> snd (format_detail change u ''negative'') = ''negative'') \<and>
   (change < 0 \<longrightarrow> snd (format_detail change u ''positive'') = ''negative''
       \<and> snd (format_detail change u ''negative'') = ''positive'') \<and>
   (change = 0 \<longrightarrow> snd (format_detail change u ''positive'') = ''positive''
       \<and> snd (format_detail change u ''negative'') = ''positive'') \<and>
   (dir \<noteq> ''positive'' \<and> dir \<noteq> ''negative'' \<longrightarrow> snd (format_detail change u dir) = ''neutral'') \<and>
   take 3 (fst (format_detail change u dir)) = (if 0 \<le> change then arrow_up else arrow_down) \<and>
   get_change_sentiment key (Some change) =
     (if 0 < change then get_change_sentiment key (Some 1) else get_change_sentiment key (Some 0))"
  by (simp add: take_arrow) (simp add: format_detail_def get_change_sentiment_def Let_def)

text \<open>At zero: positive under both directions, neutral otherwise, arrow up.\<close>

theorem sentiment_by_direction_and_sign_witness:
  "snd (format_detail 0 ''pp'' ''positive'') = ''positive'' \<and>
   snd (format_detail 0 ''pp'' ''negative'') = ''positive'' \<and>
   snd (format_detail 0 ''pp'' ''neutral'') = ''neutral'' \<and>
   take 3 (fst (format_detail 0 ''pp'' ''neutral'')) = arrow_up \<and>
   get_change_sentiment ''unemployment'' (Some 0) = ''positive''"
  using sentiment_by_direction_and_sign [of 0 "''pp''" "''neutral''" "''unemployment''"]
  by (simp add: get_change_sentiment_def)

subsection \<open>The fetch layer\<close>

text \<open>
  C4, as stated, fails on a structured FAILED status: the first answer has status FAILED,
  the second request would have succeeded, and the fetcher returns \<open>None\<close> at once, having
  slept and retried not at all.
\<close>

theorem failed_status_counterexample:
  "fetch_vector ''v1'' 5 failed_then_good = Inr (None, []) \<and>
   failed_then_good 1 5 1 = Response 200 (Document \<lparr>status = Some ''SUCCESS'',
             vectorDataPoint = [\<lparr>refPer = Some ''2024-01-01'', pvalue = Num 7\<rparr>]\<rparr>)"
  by code_simp

lemma fetch_step_retry:
  "retryable (service a) \<Longrightarrow>
     fetch_attempts service (a # rest) sl = fetch_attempts service rest (sl @ [5])"
  by (auto simp: retryable_def isl_def split: reply.splits body.splits)

lemma fetch_step_good:
  "service a = Response 200 (Document e) \<Longrightarrow> status e \<noteq> Some ''FAILED'' \<Longrightarrow>
   collect_points (vectorDataPoint e) = Inr data \<Longrightarrow>
     fetch_attempts service (a # rest) sl =
       (if sort_key date data = [] then None else Some (sort_key date data), sl)"
  by (simp add: Let_def)

lemma fetch_step_final:
  "service a = Response 200 Empty \<or> (\<exists>e. service a = Response 200 (Document e) \<and> status e = Some ''FAILED'') \<Longrightarrow>
     fetch_attempts service (a # rest) sl = (None, sl)"
  by auto

lemma fetch_attempts_sleeps:
  "fetch_attempts service as sl = (res, sl') \<Longrightarrow>
     \<exists>k \<le> length as. sl' = sl @ replicate k 5"
proof (induction as arbitrary: sl)
  case Nil
  then show ?case by simp
next
  case (Cons a as)
  show ?case
  proof (cases "retryable (service a)")
    case True
    with Cons.prems have "fetch_attempts service as (sl @ [5]) = (res, sl')"
      by (simp add: fetch_step_retry del: fetch_attempts.simps)
    from Cons.IH [OF this] obtain k where "k \<le> length as" "sl' = (sl @ [5]) @ replicate k 5" by blast
    then have "Suc k \<le> length (a # as) \<and> sl' = sl @ replicate (Suc k) 5" by simp
    then show ?thesis by blast
  next
    case False
    with Cons.prems have "sl' = sl"
      by (auto simp: retryable_def isl_def Let_def split: reply.splits body.splits if_splits sum.splits)
    then have "0 \<le> length (a # as) \<and> sl' = sl @ replicate 0 5" by simp
    then show ?thesis by blast
  qed
qed

lemma upt3: "[0 ..< 3] = [0, 1, 2]"
  by (simp add: upt_rec)

text \<open>
  C4, amended. For a vector id that is a number once the letter v is removed, a fetch
  raises nothing and sleeps 5 seconds at most 3 times. After an answer that is a network
  error, a status other than 200 or a body that cannot be read, it sleeps 5 seconds and goes
  to the next of 3 attempts: three such answers give \<open>None\<close> after three sleeps, two such
  answers followed by a good one give the series, sorted by date, after exactly two sleeps.
  An empty document or a FAILED status ends the fetch with \<open>None\<close> at once, without sleep
  or retry.
\<close>

theorem fetch_retry_policy:
  assumes "py_int (filter (\<lambda>c. c \<noteq> CHR ''v'') vector_id) = Inr vid"
  shows "(\<exists>res k. fetch_vector vector_id n service = Inr (res, replicate k 5) \<and> k \<le> 3) \<and>
    (retryable (service vid n 0) \<and> retryable (service vid n 1) \<and> retryable (service vid n 2) \<longrightarrow>
       fetch_vector vector_id n service = Inr (None, [5, 5, 5])) \<and>
    (retryable (service vid n 0) \<and> retryable (service vid n 1) \<and>
     service vid n 2 = Response 200 (Document e) \<and> status e \<noteq> Some ''FAILED'' \<and>
     collect_points (vectorDataPoint e) = Inr data \<and> data \<noteq> [] \<longrightarrow>
       fetch_vector vector_id n service = Inr (Some (sort_key date data), [5, 5])) \<and>
    (service vid n 0 = Response 200 Empty \<or>
     (\<exists>e0. service vid n 0 = Response 200 (Document e0) \<and> status e0 = Some ''FAILED'') \<longrightarrow>
       fetch_vector vector_id n service = Inr (None, []))"
proof (intro conjI impI)
  obtain res sl where r: "fetch_attempts (service vid n) [0 ..< 3] [] = (res, sl)"
    by (cases "fetch_attempts (service vid n) [0 ..< 3] []") auto
  from fetch_attempts_sleeps [OF r] obtain k where "k \<le> 3" "sl = replicate k 5" by auto
  with r assms show "\<exists>res k. fetch_vector vector_id n service = Inr (res, replicate k 5) \<and> k \<le> 3"
    by (auto simp: fetch_vector_def)
next
  assume "retryable (service vid n 0) \<and> retryable (service vid n 1) \<and> retryable (service vid n 2)"
  then show "fetch_vector vector_id n service = Inr (None, [5, 5, 5])"
    using assms by (simp add: fetch_vector_def upt3 fetch_step_retry del: fetch_attempts.simps(2))
next
  assume a: "retryable (service vid n 0) \<and> retryable (service vid n 1) \<and>
     service vid n 2 = Response 200 (Document e) \<and> status e \<noteq> Some ''FAILED'' \<and>
     collect_points (vectorDataPoint e) = Inr data \<and> data \<noteq> []"
  then have "sort_key date data \<noteq> []"
    by (metis length_sort length_0_conv)
  with a show "fetch_vector vector_id n service = Inr (Some (sort_key date data), [5, 5])"
    using assms by (simp add: fetch_vector_def upt3 fetch_step_retry fetch_step_good del: fetch_attempts.simps(2))
next
  assume "service vid n 0 = Response 200 Empty \<or>
     (\<exists>e0. service vid n 0 = Response 200 (Document e0) \<and> status e0 = Some ''FAILED'')"
  then show "fetch_vector vector_id n service = Inr (None, [])"
    using assms by (auto simp: fetch_vector_def upt3)
qed

lemma v1_id: "py_int (filter (\<lambda>c. c \<noteq> CHR ''v'') ''v1'') = Inr 1"
  by code_simp

text \<open>
  A service that is down twice and then answers; one that is always down; one that answers
  FAILED.
\<close>

theorem fetch_retry_policy_witness:
  "py_int (filter (\<lambda>c. c \<noteq> CHR ''v'') ''v1'') = Inr 1 \<and>
   retryable (down_twice 1 5 0) \<and> retryable (down_twice 1 5 1) \<and>
   fetch_vector ''v1'' 5 down_twice =
     Inr (Some [\<lparr>date = ''2024-01-01'', val = 7\<rparr>, \<lparr>date = ''2024-02-01'', val = 8\<rparr>], [5, 5]) \<and>
   fetch_vector ''v1'' 5 (\<lambda>vid n k. Failure) = Inr (None, [5, 5, 5]) \<and>
   fetch_vector ''v1'' 5 failed_then_good = Inr (None, [])"
  using fetch_retry_policy [OF v1_id, where service = down_twice and n = 5
      and e = "\<lparr>status = Some ''SUCCESS'',
             vectorDataPoint = [\<lparr>refPer = Some ''2024-02-01'', pvalue = Num 8\<rparr>,
                                \<lparr>refPer = Some ''2024-01-01'', pvalue = Num 7\<rparr>]\<rparr>"
      and data = "[\<lparr>date = ''2024-02-01'', val = 8\<rparr>, \<lparr>date = ''2024-01-01'', val = 7\<rparr>]"]
    fetch_retry_policy [OF v1_id, where service = "\<lambda>vid n k. Failure" and n = 5]
    fetch_retry_policy [OF v1_id, where service = failed_then_good and n = 5]
    v1_id
  by (simp add: retryable_def down_twice_def failed_then_good_def)

subsection \<open>Reading the official data files\<close>









lemma filter_kept_drop: "\<not> kept row \<Longrightarrow> filter kept (xs @ row # ys) = filter kept (xs @ ys)"
  by simp




subsection \<open>A year-ago value of zero\<close>

text \<open>
  C1, as stated, fails: with a year-ago observation that exists and is zero,
  \<open>compute_level_yoy_pct\<close> publishes the comparison "0.0% year over year" with a positive
  colour, and \<open>read_official_data\<close> returns a year-over-year growth of 0.
\<close>

theorem zero_lookback_counterexample:
  "compute_level_yoy_pct (example_cfg ''positive'' [vec ''v1'']) zero_base_data =
     Inr (Some \<lparr>value_text = ''2.0'', detail = arrow_up @ '' 0.0% year over year'',
                detail_color = ''positive'', period = ''2024''\<rparr>) \<and>
   read_official_data digits_float monthly_growth (Some zero_base_file) =
     Inr (Some \<lparr>date_o = Some ''2024-01-01'', period_o = Some ''2024-01'', value_o = Some 0,
                secondary = Some 0, absolute = 5, extra_key = NoExtra\<rparr>)"
  by code_simp

lemma fmt_zero: "fmt_1f 0 = ''0.0''"
  by code_simp

lemma format_detail_zero:
  "format_detail 0 u dir =
     (arrow_up @ '' 0.0'' @ (if u = ''pp'' then '' pp year over year'' else ''% year over year''),
      if dir = ''positive'' \<or> dir = ''negative'' then ''positive'' else ''neutral'')"
  by (simp add: format_detail_def fmt_zero)

lemma py_get_Cons0: "py_get (x # xs) 0 = Inr x"
  by (simp add: py_get_def)

lemma level_zero_lookback:
  assumes "vectors cfg = v # vs" "ad (vec_id v) = Some data" "get_yoy_index data = Inr (Some i)"
    "val (data ! (length data - nat (- i))) = 0" "compute_level_yoy_pct cfg ad = Inr (Some r)"
  shows "detail r = arrow_up @ '' 0.0% year over year'' \<and>
         detail_color r = (if direction cfg = ''positive'' \<or> direction cfg = ''negative''
                           then ''positive'' else ''neutral'')"
  using assms
  by (auto simp: compute_level_yoy_pct_def on_ok_eq_Inr Let_def py_get_Cons0 get_yoy_index_get
      format_detail_zero split: if_splits)

lemma official_zero_lookback:
  assumes "frequency ind \<noteq> ''Quarterly''" "frequency ind \<noteq> ''Daily''"
    "unit ind \<noteq> ''%''" "unit ind \<noteq> ''C$ millions''"
    "lookback pf rows 13 = Inr (Some 0)" "official_body pf ind rows = Inr r"
  shows "if contains ''C$'' (unit ind) \<or> contains ''dollars'' (lower (unit ind))
         then extra_key r = Yoy_growth (Some 0) \<and> secondary r = Some 0
         else value_o r = Some 0"
  using assms
  by (auto simp: official_body_def on_ok_eq_Inr Let_def growth_def split: if_splits)

lemma pair_zero_lookback:
  assumes "get_yoy_index a = Inr (Some i)" "idx_fits b i" "val (a ! (length a - nat (- i))) = 0"
  shows "pair_detail ratio now dir a b (Some i) = Inr (format_detail now ''pp'' dir)"
  using assms get_yoy_index_neg [OF assms(1)]
  by (simp add: pair_detail_def get_yoy_index_get py_get_fits)

lemma sum_zero_lookback:
  assumes "compute_sum_yoy_pct cfg ad = Inr (Some r)" "vectors cfg = v # vs"
    "ad (vec_id v) = Some ref" "get_yoy_index ref = Inr (Some i)"
    "prev_values ad i (vectors cfg) = Inr (Some prev)" "sum_list prev = 0"
  shows "detail r = [] \<and> detail_color r = ''neutral''"
  using assms
  by (auto simp: compute_sum_yoy_pct_def on_ok_eq_Inr Let_def py_get_Cons0 ref_series_def
      split: option.splits if_splits)

lemma growth_zero: "growth latest 0 = 0"
  by (simp add: growth_def)

lemma lookback_zero_base: "lookback digits_float zero_base_file 13 = Inr (Some 0)"
  by code_simp

lemma official_zero_base:
  "official_body digits_float monthly_growth zero_base_file =
     Inr \<lparr>date_o = Some ''2024-01-01'', period_o = Some ''2024-01'', value_o = Some 0,
          secondary = Some 0, absolute = 5, extra_key = NoExtra\<rparr>"
  by code_simp

lemma level_zero_base:
  "compute_level_yoy_pct (example_cfg ''positive'' [vec ''v1'']) zero_base_data =
     Inr (Some \<lparr>value_text = ''2.0'', detail = arrow_up @ '' 0.0% year over year'',
                detail_color = ''positive'', period = ''2024''\<rparr>)"
  by code_simp

lemma zero_base_index:
  "get_yoy_index [\<lparr>date = ''2023-01-01'', val = 0\<rparr>, \<lparr>date = ''2024-02-05'', val = 2\<rparr>] = Inr (Some (- 2))"
  by code_simp

subsection \<open>Year-over-year growth of a monthly series\<close>











subsection \<open>Detail and colour of a result\<close>

lemma joint_blank: "joint dir [] ''neutral''"
  by (simp add: joint_def)

lemma joint_format: "joint dir (fst (format_detail c u dir)) (snd (format_detail c u dir))"
proof -
  have "snd (format_detail c u dir) = snd (format_detail c ''%'' dir)"
    by (simp add: format_detail_def Let_def)
  moreover have "fst (format_detail c u dir) \<noteq> []"
    by (simp add: format_detail_def Let_def arrow_up_def arrow_down_def)
  ultimately show ?thesis
    unfolding joint_def using take_arrow [of c u dir] by metis
qed

lemma joint_format_pair: "format_detail c u dir = (a, b) \<Longrightarrow> joint dir a b"
  using joint_format [of dir c u] by simp

lemma on_ok_InrE:
  assumes "on_ok x f = Inr r"
  obtains v where "x = Inr v" and "f v = Inr r"
  using assms by (cases x) auto

lemma pair_detail_joint:
  "pair_detail ratio now dir a b yi = Inr dc \<Longrightarrow> joint dir (fst dc) (snd dc)"
  by (auto elim!: on_ok_InrE simp: pair_detail_def Let_def joint_blank joint_format
      split: option.split_asm if_split_asm)

lemma pair_detail_joint_pair:
  "pair_detail ratio now dir a b yi = Inr (x, y) \<Longrightarrow> joint dir x y"
  using pair_detail_joint [of ratio now dir a b yi "(x, y)"] by simp

lemma rate_joint:
  "compute_rate_yoy_pp cfg ad = Inr (Some r) \<Longrightarrow> joint (direction cfg) (detail r) (detail_color r)"
  by (auto elim!: on_ok_InrE simp: compute_rate_yoy_pp_def Let_def joint_format
      split: option.split_asm if_split_asm)

lemma level_joint:
  "compute_level_yoy_pct cfg ad = Inr (Some r) \<Longrightarrow> joint (direction cfg) (detail r) (detail_color r)"
  by (auto elim!: on_ok_InrE simp: compute_level_yoy_pct_def Let_def joint_format
      split: option.split_asm if_split_asm)

lemma qoq_joint:
  assumes "compute_level_qoq_pct cfg ad = Inr (Some r)"
  shows "joint (direction cfg) (detail r) (detail_color r)"
proof -
  from assms obtain c where
    d: "detail r = (if c \<ge> 0 then arrow_up else arrow_down) @ '' '' @ fmt_1f \<bar>c\<bar> @ ''% quarter over quarter''"
    and col: "detail_color r = snd (format_detail c ''%'' (direction cfg))"
    by (auto elim!: on_ok_InrE simp: compute_level_qoq_pct_def Let_def format_detail_def
        split: option.split_asm if_split_asm)
  from d have "detail r \<noteq> []" "take 3 (detail r) = (if 0 \<le> c then arrow_up else arrow_down)"
    by (simp_all add: arrow_up_def arrow_down_def)
  with col show ?thesis unfolding joint_def by blast
qed

lemma share_joint:
  "compute_share_pct cfg ad = Inr (Some r) \<Longrightarrow> joint (direction cfg) (detail r) (detail_color r)"
  by (auto elim!: on_ok_InrE simp: compute_share_pct_def Let_def
      split: option.split_asm if_split_asm prod.split_asm dest!: pair_detail_joint_pair)

lemma wage_joint:
  "compute_wage_gap cfg ad = Inr (Some r) \<Longrightarrow> joint (direction cfg) (detail r) (detail_color r)"
  by (auto elim!: on_ok_InrE simp: compute_wage_gap_def Let_def
      split: option.split_asm if_split_asm prod.split_asm dest!: pair_detail_joint_pair)

lemma composite_joint:
  "compute_composite_avg cfg ad = Inr (Some r) \<Longrightarrow> joint (direction cfg) (detail r) (detail_color r)"
  by (auto elim!: on_ok_InrE simp: compute_composite_avg_def Let_def joint_blank
      split: option.split_asm if_split_asm dest!: joint_format_pair)

lemma sum_joint:
  "compute_sum_yoy_pct cfg ad = Inr (Some r) \<Longrightarrow> joint (direction cfg) (detail r) (detail_color r)"
  by (auto elim!: on_ok_InrE simp: compute_sum_yoy_pct_def Let_def joint_blank
      split: option.split_asm if_split_asm dest!: joint_format_pair)

lemma combined_joint:
  "compute_combined_rate cfg ad = Inr (Some r) \<Longrightarrow> joint (direction cfg) (detail r) (detail_color r)"
  by (auto elim!: on_ok_InrE simp: compute_combined_rate_def Let_def joint_blank
      split: option.split_asm if_split_asm dest!: joint_format_pair)

lemma py_get0_mem: "py_get xs 0 = Inr v \<Longrightarrow> v \<in> set xs"
  by (cases xs) (auto simp: py_get_def)

lemma no_lookback_D:
  "no_lookback cfg ad \<Longrightarrow> v \<in> set (vectors cfg) \<Longrightarrow> ad (vec_id v) = Some data \<Longrightarrow>
     get_yoy_index data = Inr None"
  by (auto simp: no_lookback_def list_all_iff split: option.splits)

lemma find_labels_mem:
  "find_labels la lb vs (a0, b0) = Inr (a, b) \<Longrightarrow>
     a = a0 \<or> (\<exists>v \<in> set vs. a = Some (vec_id v))"
  by (induction la lb vs "(a0, b0)" arbitrary: a0 b0 rule: find_labels.induct)
     (auto split: option.split_asm if_split_asm)

lemma rate_shape:
  "compute_rate_yoy_pp cfg ad = Inr (Some r) \<Longrightarrow>
     \<exists>v data i. v \<in> set (vectors cfg) \<and> ad (vec_id v) = Some data \<and> get_yoy_index data = Inr (Some i)"
  by (fastforce elim!: on_ok_InrE simp: compute_rate_yoy_pp_def Let_def
      split: option.split_asm if_split_asm dest!: py_get0_mem)

lemma level_shape:
  "compute_level_yoy_pct cfg ad = Inr (Some r) \<Longrightarrow>
     \<exists>v data i. v \<in> set (vectors cfg) \<and> ad (vec_id v) = Some data \<and> get_yoy_index data = Inr (Some i)"
  by (fastforce elim!: on_ok_InrE simp: compute_level_yoy_pct_def Let_def
      split: option.split_asm if_split_asm dest!: py_get0_mem)

lemma rate_no_lookback:
  assumes "no_lookback cfg ad" "compute_rate_yoy_pp cfg ad = Inr (Some r)"
  shows "detail r = [] \<and> detail_color r = ''neutral''"
proof -
  from rate_shape [OF assms(2)] obtain v data i where
    "v \<in> set (vectors cfg)" "ad (vec_id v) = Some data" "get_yoy_index data = Inr (Some i)"
    by blast
  with no_lookback_D [OF assms(1)] show ?thesis by fastforce
qed

lemma level_no_lookback:
  assumes "no_lookback cfg ad" "compute_level_yoy_pct cfg ad = Inr (Some r)"
  shows "detail r = [] \<and> detail_color r = ''neutral''"
proof -
  from level_shape [OF assms(2)] obtain v data i where
    "v \<in> set (vectors cfg)" "ad (vec_id v) = Some data" "get_yoy_index data = Inr (Some i)"
    by blast
  with no_lookback_D [OF assms(1)] show ?thesis by fastforce
qed

lemma pair_no_lookback:
  assumes "no_lookback cfg ad"
    "find_labels la lb (vectors cfg) (None, None) = Inr (a, b)" "\<not> falsy (get_data ad a)"
    "get_yoy_index (the (get_data ad a)) = Inr yi"
  shows "yi = None"
proof -
  from assms(3) obtain k where a: "a = Some k" by (cases a) (auto simp: get_data_def falsy_def)
  with find_labels_mem [OF assms(2)] obtain v where v: "v \<in> set (vectors cfg)" "k = vec_id v"
    by auto
  from assms(3) a obtain data where d: "ad k = Some data"
    by (cases "ad k") (auto simp: get_data_def falsy_def)
  from no_lookback_D [OF assms(1) v(1)] d v(2) have "get_yoy_index data = Inr None" by simp
  with assms(4) a d show ?thesis by (simp add: get_data_def)
qed

lemma share_shape:
  "compute_share_pct cfg ad = Inr (Some r) \<Longrightarrow>
     \<exists>a b yi. find_labels ''total_exports'' ''us_exports'' (vectors cfg) (None, None) = Inr (a, b) \<and>
       \<not> falsy (get_data ad a) \<and> get_yoy_index (the (get_data ad a)) = Inr yi \<and>
       (yi = None \<longrightarrow> detail r = [] \<and> detail_color r = ''neutral'')"
  by (auto elim!: on_ok_InrE simp: compute_share_pct_def Let_def pair_detail_def
      split: if_split_asm prod.split_asm)

lemma wage_shape:
  "compute_wage_gap cfg ad = Inr (Some r) \<Longrightarrow>
     \<exists>a b yi. find_labels ''male_wage'' ''female_wage'' (vectors cfg) (None, None) = Inr (a, b) \<and>
       \<not> falsy (get_data ad a) \<and> get_yoy_index (the (get_data ad a)) = Inr yi \<and>
       (yi = None \<longrightarrow> detail r = [] \<and> detail_color r = ''neutral'')"
  by (auto elim!: on_ok_InrE simp: compute_wage_gap_def Let_def pair_detail_def
      split: if_split_asm prod.split_asm)

lemma share_no_lookback:
  assumes "no_lookback cfg ad" "compute_share_pct cfg ad = Inr (Some r)"
  shows "detail r = [] \<and> detail_color r = ''neutral''"
  using share_shape [OF assms(2)] pair_no_lookback [OF assms(1)] by blast

lemma wage_no_lookback:
  assumes "no_lookback cfg ad" "compute_wage_gap cfg ad = Inr (Some r)"
  shows "detail r = [] \<and> detail_color r = ''neutral''"
  using wage_shape [OF assms(2)] pair_no_lookback [OF assms(1)] by blast

lemma ref_no_lookback:
  "no_lookback cfg ad \<Longrightarrow> v \<in> set (vectors cfg) \<Longrightarrow> ref_series ad v = Inr data \<Longrightarrow>
     get_yoy_index data = Inr yi \<Longrightarrow> yi = None"
  by (auto simp: ref_series_def split: option.split_asm dest: no_lookback_D)

lemma composite_shape:
  "compute_composite_avg cfg ad = Inr (Some r) \<Longrightarrow>
     \<exists>v data yi. v \<in> set (vectors cfg) \<and> ref_series ad v = Inr data \<and> get_yoy_index data = Inr yi \<and>
       (yi = None \<longrightarrow> detail r = [] \<and> detail_color r = ''neutral'')"
  by (auto elim!: on_ok_InrE simp: compute_composite_avg_def Let_def
      split: option.split_asm if_split_asm dest!: py_get0_mem)

lemma sum_shape:
  "compute_sum_yoy_pct cfg ad = Inr (Some r) \<Longrightarrow>
     \<exists>v data yi. v \<in> set (vectors cfg) \<and> ref_series ad v = Inr data \<and> get_yoy_index data = Inr yi \<and>
       (yi = None \<longrightarrow> detail r = [] \<and> detail_color r = ''neutral'')"
  by (auto elim!: on_ok_InrE simp: compute_sum_yoy_pct_def Let_def
      split: option.split_asm if_split_asm dest!: py_get0_mem)

lemma combined_shape:
  "compute_combined_rate cfg ad = Inr (Some r) \<Longrightarrow>
     \<exists>v data yi. v \<in> set (vectors cfg) \<and> ref_series ad v = Inr data \<and> get_yoy_index data = Inr yi \<and>
       (yi = None \<longrightarrow> detail r = [] \<and> detail_color r = ''neutral'')"
  by (auto elim!: on_ok_InrE simp: compute_combined_rate_def Let_def
      split: option.split_asm if_split_asm dest!: py_get0_mem)

lemma composite_no_lookback:
  assumes "no_lookback cfg ad" "compute_composite_avg cfg ad = Inr (Some r)"
  shows "detail r = [] \<and> detail_color r = ''neutral''"
  using composite_shape [OF assms(2)] ref_no_lookback [OF assms(1)] by blast

lemma sum_no_lookback:
  assumes "no_lookback cfg ad" "compute_sum_yoy_pct cfg ad = Inr (Some r)"
  shows "detail r = [] \<and> detail_color r = ''neutral''"
  using sum_shape [OF assms(2)] ref_no_lookback [OF assms(1)] by blast

lemma combined_no_lookback:
  assumes "no_lookback cfg ad" "compute_combined_rate cfg ad = Inr (Some r)"
  shows "detail r = [] \<and> detail_color r = ''neutral''"
  using combined_shape [OF assms(2)] ref_no_lookback [OF assms(1)] by blast

lemma COMPUTE_FUNCTIONS_named:
  assumes "COMPUTE_FUNCTIONS name = Some f"
  shows "(name = ''rate_yoy_pp'' \<and> f = compute_rate_yoy_pp) \<or>
         (name = ''level_yoy_pct'' \<and> f = compute_level_yoy_pct) \<or>
         (name = ''level_qoq_pct'' \<and> f = compute_level_qoq_pct) \<or>
         (name = ''count_yoy_pct'' \<and> f = compute_count_yoy_pct) \<or>
         (name = ''share_pct'' \<and> f = compute_share_pct) \<or>
         (name = ''wage_gap'' \<and> f = compute_wage_gap) \<or>
         (name = ''composite_avg'' \<and> f = compute_composite_avg) \<or>
         (name = ''sum_yoy_pct'' \<and> f = compute_sum_yoy_pct) \<or>
         (name = ''combined_rate'' \<and> f = compute_combined_rate)"
  using assms by (auto simp: COMPUTE_FUNCTIONS_def split: if_splits)

lemma strategies_joint:
  assumes "COMPUTE_FUNCTIONS name = Some f" and "f cfg ad = Inr (Some r)"
  shows "joint (direction cfg) (detail r) (detail_color r)"
  using COMPUTE_FUNCTIONS_named [OF assms(1)] assms(2)
    rate_joint [of cfg ad r] level_joint [of cfg ad r] qoq_joint [of cfg ad r]
    share_joint [of cfg ad r] wage_joint [of cfg ad r] composite_joint [of cfg ad r]
    sum_joint [of cfg ad r] combined_joint [of cfg ad r]
  by (auto simp: compute_count_yoy_pct_def)

lemma strategies_no_lookback:
  assumes "COMPUTE_FUNCTIONS name = Some f" and "f cfg ad = Inr (Some r)"
    and "name \<noteq> ''level_qoq_pct''" and "no_lookback cfg ad"
  shows "detail r = [] \<and> detail_color r = ''neutral''"
  using COMPUTE_FUNCTIONS_named [OF assms(1)] assms(2,3)
    rate_no_lookback [OF assms(4), of r] level_no_lookback [OF assms(4), of r]
    share_no_lookback [OF assms(4), of r] wage_no_lookback [OF assms(4), of r]
    composite_no_lookback [OF assms(4), of r] sum_no_lookback [OF assms(4), of r]
    combined_no_lookback [OF assms(4), of r]
  by (auto simp: compute_count_yoy_pct_def)

lemma sum_short_example:
  "compute_sum_yoy_pct (example_cfg ''positive'' [vec ''v1'', vec ''v2'']) short_data =
     Inr (Some \<lparr>value_text = ''4.0'', detail = [], detail_color = ''neutral'', period = ''2024-01''\<rparr>)"
  by code_simp

lemma short_no_lookback: "no_lookback (example_cfg ''positive'' [vec ''v1'', vec ''v2'']) short_data"
  by code_simp

subsection \<open>The combined rate\<close>

lemma latest_values_None_iff:
  "latest_values ad vs = None \<longleftrightarrow> (\<exists>v \<in> set vs. falsy (ad (vec_id v)))"
  by (induction vs) (fastforce simp: falsy_def split: option.splits)+

lemma latest_values_Some:
  "latest_values ad vs = Some xs \<Longrightarrow> xs = map (latest_of ad) vs"
  by (induction vs arbitrary: xs) (auto simp: latest_of_def split: option.split_asm if_split_asm)

lemma latest_values_present:
  "\<forall>v \<in> set vs. \<not> falsy (ad (vec_id v)) \<Longrightarrow> latest_values ad vs = Some (map (latest_of ad) vs)"
  using latest_values_None_iff [of ad vs] latest_values_Some [of ad vs]
  by (cases "latest_values ad vs") auto

lemma combined_absent:
  assumes "nums = filter (\<lambda>v. role v = Some ''numerator'') (vectors cfg)"
    and "dens = filter (\<lambda>v. role v = Some ''denominator'') (vectors cfg)"
    and "nums = [] \<or> dens = [] \<or> (\<exists>v \<in> set (nums @ dens). falsy (ad (vec_id v))) \<or>
         sum_list (map (latest_of ad) dens) = 0"
  shows "compute_combined_rate cfg ad = Inr None"
proof (cases "nums = [] \<or> dens = []")
  case True
  then show ?thesis using assms(1,2) by (auto simp: compute_combined_rate_def Let_def)
next
  case False
  show ?thesis
  proof (cases "latest_values ad nums")
    case None
    then show ?thesis using assms(1,2) False by (simp add: compute_combined_rate_def Let_def)
  next
    case (Some ns)
    show ?thesis
    proof (cases "latest_values ad dens")
      case None
      then show ?thesis using assms(1,2) False Some by (simp add: compute_combined_rate_def Let_def)
    next
      case ds: (Some ds)
      from Some ds have "\<not> (\<exists>v \<in> set (nums @ dens). falsy (ad (vec_id v)))"
        using latest_values_None_iff [of ad nums] latest_values_None_iff [of ad dens] by auto
      with assms(3) False have "sum_list (map (latest_of ad) dens) = 0" by blast
      with latest_values_Some [OF ds] have "sum_list ds = 0" by simp
      then show ?thesis using assms(1,2) False Some ds
        by (simp add: compute_combined_rate_def Let_def)
    qed
  qed
qed

lemma combined_value:
  assumes "nums = filter (\<lambda>v. role v = Some ''numerator'') (vectors cfg)"
    and "dens = filter (\<lambda>v. role v = Some ''denominator'') (vectors cfg)"
    and "compute_combined_rate cfg ad = Inr (Some r)"
  shows "value_text r = format_value cfg
           (sum_list (map (latest_of ad) nums) / sum_list (map (latest_of ad) dens) * 100)"
  using assms(3) unfolding assms(1,2)
  by (auto elim!: on_ok_InrE simp: compute_combined_rate_def Let_def
      split: option.split_asm if_split_asm dest!: latest_values_Some)

lemma combined_returns:
  assumes "nums = filter (\<lambda>v. role v = Some ''numerator'') (vectors cfg)"
    and "dens = filter (\<lambda>v. role v = Some ''denominator'') (vectors cfg)"
    and "nums \<noteq> []" "dens \<noteq> []" "\<forall>v \<in> set (nums @ dens). \<not> falsy (ad (vec_id v))"
    and "sum_list (map (latest_of ad) dens) \<noteq> 0"
    and "get_yoy_index (the (ad (vec_id (hd nums)))) = Inr yi"
    and "period_mq (the (ad (vec_id (hd nums)))) = Inr p"
  shows "\<exists>r. compute_combined_rate cfg ad = Inr (Some r)"
proof -
  have ln: "latest_values ad nums = Some (map (latest_of ad) nums)"
    using assms(5) by (intro latest_values_present) auto
  have ld: "latest_values ad dens = Some (map (latest_of ad) dens)"
    using assms(5) by (intro latest_values_present) auto
  have "hd nums \<in> set (nums @ dens)" using assms(3) by simp
  with assms(5) have "\<not> falsy (ad (vec_id (hd nums)))" by blast
  then obtain ref where ref: "ad (vec_id (hd nums)) = Some ref"
    by (cases "ad (vec_id (hd nums))") (simp_all add: falsy_def)
  have rs: "ref_series ad (hd nums) = Inr ref" using ref by (simp add: ref_series_def)
  have gi: "get_yoy_index ref = Inr yi" and pm: "period_mq ref = Inr p"
    using assms(7,8) ref by simp_all
  have pv: "\<And>i vs. yi = Some i \<Longrightarrow> \<exists>x. prev_values ad i vs = Inr x"
    using gi get_yoy_index_neg prev_values_ok by blast
  show ?thesis
  proof (cases yi)
    case None
    then show ?thesis
      using assms(3,4,6) ln ld rs gi pm unfolding assms(1,2)
      by (simp add: compute_combined_rate_def Let_def py_get_first)
  next
    case (Some i)
    from pv [OF Some] obtain xn xd where
      "prev_values ad i nums = Inr xn" "prev_values ad i dens = Inr xd" by blast
    then show ?thesis
      using assms(3,4,6) ln ld rs gi pm Some unfolding assms(1,2)
      by (auto simp: compute_combined_rate_def Let_def py_get_first split: option.splits)
  qed
qed

text \<open>
  C5. \<open>compute_combined_rate\<close> returns, as its value, the sum of the latest values of the
  numerator-role series divided by the sum of the latest values of the denominator-role
  series, times 100; it returns \<open>None\<close>, and raises nothing, whenever a role has no vector,
  a required series is missing or empty, or the denominator sum is zero. With all inputs
  present, a nonzero denominator and dates of the reference series that parse, a result is
  returned.
\<close>

theorem combined_rate_value:
  assumes "nums = filter (\<lambda>v. role v = Some ''numerator'') (vectors cfg)"
    and "dens = filter (\<lambda>v. role v = Some ''denominator'') (vectors cfg)"
  shows "(nums = [] \<or> dens = [] \<or> (\<exists>v \<in> set (nums @ dens). falsy (ad (vec_id v))) \<or>
          sum_list (map (latest_of ad) dens) = 0 \<longrightarrow>
            compute_combined_rate cfg ad = Inr None) \<and>
         (\<forall>r. compute_combined_rate cfg ad = Inr (Some r) \<longrightarrow>
            value_text r = format_value cfg
              (sum_list (map (latest_of ad) nums) / sum_list (map (latest_of ad) dens) * 100)) \<and>
         (nums \<noteq> [] \<and> dens \<noteq> [] \<and> (\<forall>v \<in> set (nums @ dens). \<not> falsy (ad (vec_id v))) \<and>
          sum_list (map (latest_of ad) dens) \<noteq> 0 \<and>
          get_yoy_index (the (ad (vec_id (hd nums)))) = Inr yi \<and>
          period_mq (the (ad (vec_id (hd nums)))) = Inr p \<longrightarrow>
            (\<exists>r. compute_combined_rate cfg ad = Inr (Some r)))"
  using combined_absent [OF assms, of ad] combined_value [OF assms, of ad]
    combined_returns [OF assms, of ad yi p]
  by blast

lemma combined_example:
  "compute_combined_rate combined_cfg combined_data =
     Inr (Some \<lparr>value_text = ''20.0'', detail = [], detail_color = ''neutral'',
                period = ''2024-02''\<rparr>)"
  by code_simp

lemma combined_example_sums:
  "sum_list (map (latest_of combined_data)
     (filter (\<lambda>v. role v = Some ''numerator'') (vectors combined_cfg))) = 17 \<and>
   sum_list (map (latest_of combined_data)
     (filter (\<lambda>v. role v = Some ''denominator'') (vectors combined_cfg))) = 85"
  by code_simp

lemma combined_example_absent:
  "\<exists>v \<in> set (filter (\<lambda>v. role v = Some ''numerator'') (vectors combined_cfg) @
               filter (\<lambda>v. role v = Some ''denominator'') (vectors combined_cfg)).
     falsy (Map.empty (vec_id v))"
  by code_simp

text \<open>
  Numerators 10, 5, 2 and denominators 50, 25, 10: the value is 17 / 85 * 100 = 20.0.
  Without any data the result is \<open>None\<close>.
\<close>

theorem combined_rate_value_witness:
  "sum_list (map (latest_of combined_data)
     (filter (\<lambda>v. role v = Some ''numerator'') (vectors combined_cfg))) = 17 \<and>
   sum_list (map (latest_of combined_data)
     (filter (\<lambda>v. role v = Some ''denominator'') (vectors combined_cfg))) = 85 \<and>
   compute_combined_rate combined_cfg combined_data =
     Inr (Some \<lparr>value_text = ''20.0'', detail = [], detail_color = ''neutral'',
                period = ''2024-02''\<rparr>) \<and>
   format_value combined_cfg (17 / 85 * 100) = ''20.0'' \<and>
   compute_combined_rate combined_cfg Map.empty = Inr None"
proof -
  note t = combined_rate_value [OF refl refl, of combined_cfg combined_data]
  note u = combined_rate_value [OF refl refl, of combined_cfg Map.empty]
  have a: "compute_combined_rate combined_cfg Map.empty = Inr None"
    using u [THEN conjunct1] combined_example_absent by blast
  have "value_text \<lparr>value_text = ''20.0'', detail = [], detail_color = ''neutral'',
                period = ''2024-02''\<rparr> = format_value combined_cfg
          (sum_list (map (latest_of combined_data)
             (filter (\<lambda>v. role v = Some ''numerator'') (vectors combined_cfg))) /
           sum_list (map (latest_of combined_data)
             (filter (\<lambda>v. role v = Some ''denominator'') (vectors combined_cfg))) * 100)"
    using t [THEN conjunct2, THEN conjunct1] combined_example by blast
  then have b: "format_value combined_cfg (17 / 85 * 100) = ''20.0''"
    by (simp only: combined_example_sums result.simps)
  show ?thesis
    using combined_example combined_example_sums a b by blast
qed

subsection \<open>The composite average\<close>

text \<open>
  C6, as stated, fails on series of different cadence. The first series is monthly, the
  second quarterly, both of 13 observations. The year-ago index of the quarterly series is
  \<open>-5\<close>, and with each series at its own index the earlier average is (100 + 20) / 2 and
  the change 5.0; \<open>compute_composite_avg\<close> reads both series at \<open>-13\<close>, the index of the
  first, and reports a change of 10.0.
\<close>

theorem shared_lookback_counterexample:
  "compute_composite_avg mixed_cfg mixed_data =
     Inr (Some \<lparr>value_text = ''65.0'', detail = arrow_up @ '' 10.0 pp year over year'',
                detail_color = ''positive'', period = ''2024-01''\<rparr>) \<and>
   get_yoy_index monthly_13 = Inr (Some (- 13)) \<and>
   get_yoy_index quarterly_13 = Inr (Some (- 5)) \<and>
   own_prev_values mixed_data (vectors mixed_cfg) = Inr (Some [100, 20]) \<and>
   prev_values mixed_data (- 13) (vectors mixed_cfg) = Inr (Some [100, 10]) \<and>
   fst (format_detail (65 - weighted_sum [100, 20] [1, 1] / 2) ''pp'' ''positive'') =
     arrow_up @ '' 5.0 pp year over year''"
  by code_simp

lemma prev_values_Some:
  "i < 0 \<Longrightarrow> prev_values ad i vs = Inr (Some xs) \<Longrightarrow>
     xs = map (value_back ad i) vs \<and>
     (\<forall>v \<in> set vs. \<not> falsy (ad (vec_id v)) \<and> idx_fits (the (ad (vec_id v))) i)"
proof (induction vs arbitrary: xs)
  case Nil
  then show ?case by simp
next
  case (Cons v vs)
  from Cons.prems(2) obtain data where d: "ad (vec_id v) = Some data"
    by (cases "ad (vec_id v)") auto
  with Cons.prems(2) have f: "data \<noteq> []" "idx_fits data i"
    by (auto split: if_split_asm)
  with d Cons.prems obtain r where r: "prev_values ad i vs = Inr r"
    and x: "(case r of None \<Rightarrow> None | Some ys \<Rightarrow> Some (val (data ! (length data - nat (- i))) # ys)) = Some xs"
    by (auto simp: py_get_fits elim!: on_ok_InrE)
  from x obtain ys where ys: "r = Some ys" "xs = val (data ! (length data - nat (- i))) # ys"
    by (cases r) auto
  from Cons.IH [OF Cons.prems(1)] r ys(1) have
    "ys = map (value_back ad i) vs \<and> (\<forall>v \<in> set vs. \<not> falsy (ad (vec_id v)) \<and> idx_fits (the (ad (vec_id v))) i)"
    by simp
  with ys(2) d f show ?case by (simp add: value_back_def falsy_def)
qed

lemma prev_values_None:
  "i < 0 \<Longrightarrow> prev_values ad i vs = Inr None \<Longrightarrow>
     \<exists>v \<in> set vs. falsy (ad (vec_id v)) \<or> \<not> idx_fits (the (ad (vec_id v))) i"
proof (induction vs)
  case Nil
  then show ?case by simp
next
  case (Cons v vs)
  show ?case
  proof (cases "falsy (ad (vec_id v)) \<or> \<not> idx_fits (the (ad (vec_id v))) i")
    case True
    then show ?thesis by auto
  next
    case False
    then obtain data where d: "ad (vec_id v) = Some data" "data \<noteq> []" "idx_fits data i"
      by (cases "ad (vec_id v)") (auto simp: falsy_def)
    from prev_values_ok [OF Cons.prems(1)] obtain r where r: "prev_values ad i vs = Inr r" by blast
    with d Cons.prems have "r = None"
      by (cases r) (auto simp: py_get_fits)
    with r Cons.IH [OF Cons.prems(1)] show ?thesis by auto
  qed
qed

lemma prev_values_all_fit:
  assumes "i < 0" "\<forall>v \<in> set vs. \<not> falsy (ad (vec_id v)) \<and> idx_fits (the (ad (vec_id v))) i"
  shows "prev_values ad i vs = Inr (Some (map (value_back ad i) vs))"
proof -
  from prev_values_ok [OF assms(1)] obtain r where r: "prev_values ad i vs = Inr r" by blast
  show ?thesis
  proof (cases r)
    case None
    with r prev_values_None [OF assms(1)] assms(2) show ?thesis by blast
  next
    case (Some xs)
    with r prev_values_Some [OF assms(1)] show ?thesis by blast
  qed
qed

lemma weighted_sum_ones: "weighted_sum xs (replicate (length xs) 1) = sum_list xs"
  by (induction xs) (simp_all add: weighted_sum_def)

lemma py_get0_Cons: "py_get xs 0 = Inr v \<Longrightarrow> \<exists>vs. xs = v # vs"
  by (cases xs) (auto simp: py_get_def)

lemma composite_steps:
  assumes "compute_composite_avg cfg ad = Inr (Some r)"
  shows "\<exists>values weights v0 ref yi dc.
     latest_values ad (vectors cfg) = Some values \<and>
     (case population_vectors cfg of Some pvs \<Rightarrow> latest_values ad pvs
      | None \<Rightarrow> Some (replicate (length values) 1)) = Some weights \<and>
     sum_list weights \<noteq> 0 \<and>
     py_get (vectors cfg) 0 = Inr v0 \<and> ref_series ad v0 = Inr ref \<and> get_yoy_index ref = Inr yi \<and>
     (case yi of
        None \<Rightarrow> Inr ([], ''neutral'')
      | Some i \<Rightarrow>
          on_ok (prev_values ad i (vectors cfg)) (\<lambda>pv.
            case pv of
              None \<Rightarrow> Inr ([], ''neutral'')
            | Some prev \<Rightarrow>
                if prev = [] then Inr ([], ''neutral'')
                else Inr (format_detail
                       (weighted_sum values weights / sum_list weights
                          - weighted_sum prev weights / sum_list weights)
                       ''pp'' (direction cfg)))) = Inr dc \<and>
     detail r = fst dc \<and> detail_color r = snd dc \<and>
     value_text r = format_value cfg (weighted_sum values weights / sum_list weights)"
  using assms
  by (fastforce elim!: on_ok_InrE simp: compute_composite_avg_def Let_def
      split: option.split_asm if_split_asm)

lemma composite_value:
  assumes "compute_composite_avg cfg ad = Inr (Some r)"
  shows "value_text r = format_value cfg
           (weighted_sum (map (latest_of ad) (vectors cfg)) (get_weights cfg ad)
              / sum_list (get_weights cfg ad)) \<and>
         (population_vectors cfg = None \<longrightarrow>
            value_text r = format_value cfg
              (sum_list (map (latest_of ad) (vectors cfg)) / real (length (vectors cfg)))) \<and>
         (\<exists>v0 vs ref yi. vectors cfg = v0 # vs \<and> ad (vec_id v0) = Some ref \<and>
            get_yoy_index ref = Inr yi \<and>
            (\<forall>i. yi = Some i \<and> (\<forall>v \<in> set (vectors cfg). idx_fits (the (ad (vec_id v))) i) \<longrightarrow>
               (detail r, detail_color r) =
                 format_detail
                   (weighted_sum (map (latest_of ad) (vectors cfg)) (get_weights cfg ad)
                      / sum_list (get_weights cfg ad)
                    - weighted_sum (map (value_back ad i) (vectors cfg)) (get_weights cfg ad)
                      / sum_list (get_weights cfg ad))
                   ''pp'' (direction cfg)) \<and>
            (yi = None \<or>
             (\<exists>i. yi = Some i \<and> (\<exists>v \<in> set (vectors cfg). \<not> idx_fits (the (ad (vec_id v))) i)) \<longrightarrow>
               detail r = [] \<and> detail_color r = ''neutral''))"
proof -
  from composite_steps [OF assms] obtain vals wts v0 ref yi dc where
    lv: "latest_values ad (vectors cfg) = Some vals" and
    w: "(case population_vectors cfg of Some pvs \<Rightarrow> latest_values ad pvs
         | None \<Rightarrow> Some (replicate (length vals) 1)) = Some wts" and
    g0: "py_get (vectors cfg) 0 = Inr v0" and rs: "ref_series ad v0 = Inr ref" and
    gi: "get_yoy_index ref = Inr yi" and
    dc: "(case yi of
        None \<Rightarrow> Inr ([], ''neutral'')
      | Some i \<Rightarrow>
          on_ok (prev_values ad i (vectors cfg)) (\<lambda>pv.
            case pv of
              None \<Rightarrow> Inr ([], ''neutral'')
            | Some prev \<Rightarrow>
                if prev = [] then Inr ([], ''neutral'')
                else Inr (format_detail
                       (weighted_sum vals wts / sum_list wts
                          - weighted_sum prev wts / sum_list wts)
                       ''pp'' (direction cfg)))) = Inr dc" and
    d: "detail r = fst dc" "detail_color r = snd dc" and
    vt: "value_text r = format_value cfg (weighted_sum vals wts / sum_list wts)"
    by blast
  have vals: "vals = map (latest_of ad) (vectors cfg)"
    by (rule latest_values_Some [OF lv])
  have wts: "wts = get_weights cfg ad"
    using w vals by (auto simp: get_weights_def split: option.split_asm dest: latest_values_Some)
  from py_get0_Cons [OF g0] obtain vs where vs: "vectors cfg = v0 # vs" by blast
  from rs have ref: "ad (vec_id v0) = Some ref"
    by (auto simp: ref_series_def split: option.split_asm)
  have present: "\<forall>v \<in> set (vectors cfg). \<not> falsy (ad (vec_id v))"
    using lv latest_values_None_iff [of ad "vectors cfg"] by auto
  have eq: "population_vectors cfg = None \<longrightarrow>
      value_text r = format_value cfg
        (sum_list (map (latest_of ad) (vectors cfg)) / real (length (vectors cfg)))"
    using vt w vals weighted_sum_ones [of vals] by (auto simp: sum_list_replicate)
  have fits: "\<forall>i. yi = Some i \<and> (\<forall>v \<in> set (vectors cfg). idx_fits (the (ad (vec_id v))) i) \<longrightarrow>
      (detail r, detail_color r) =
        format_detail (weighted_sum vals wts / sum_list wts
           - weighted_sum (map (value_back ad i) (vectors cfg)) wts / sum_list wts)
          ''pp'' (direction cfg)"
  proof (intro allI impI)
    fix i
    assume a: "yi = Some i \<and> (\<forall>v \<in> set (vectors cfg). idx_fits (the (ad (vec_id v))) i)"
    then have neg: "i < 0" using gi get_yoy_index_neg by blast
    have "prev_values ad i (vectors cfg) = Inr (Some (map (value_back ad i) (vectors cfg)))"
      using prev_values_all_fit [OF neg] a present by blast
    with dc a vs have "dc = format_detail (weighted_sum vals wts / sum_list wts
           - weighted_sum (map (value_back ad i) (vectors cfg)) wts / sum_list wts)
          ''pp'' (direction cfg)"
      by simp
    with d show "(detail r, detail_color r) =
        format_detail (weighted_sum vals wts / sum_list wts
           - weighted_sum (map (value_back ad i) (vectors cfg)) wts / sum_list wts)
          ''pp'' (direction cfg)"
      by simp
  qed
  have blank: "yi = None \<or>
       (\<exists>i. yi = Some i \<and> (\<exists>v \<in> set (vectors cfg). \<not> idx_fits (the (ad (vec_id v))) i)) \<longrightarrow>
       detail r = [] \<and> detail_color r = ''neutral''"
  proof
    assume "yi = None \<or>
       (\<exists>i. yi = Some i \<and> (\<exists>v \<in> set (vectors cfg). \<not> idx_fits (the (ad (vec_id v))) i))"
    then show "detail r = [] \<and> detail_color r = ''neutral''"
    proof
      assume "yi = None"
      with dc d show ?thesis by auto
    next
      assume "\<exists>i. yi = Some i \<and> (\<exists>v \<in> set (vectors cfg). \<not> idx_fits (the (ad (vec_id v))) i)"
      then obtain i where i: "yi = Some i"
        and nf: "\<exists>v \<in> set (vectors cfg). \<not> idx_fits (the (ad (vec_id v))) i" by blast
      have neg: "i < 0" using gi i get_yoy_index_neg by blast
      from prev_values_ok [OF neg] obtain pv where pv: "prev_values ad i (vectors cfg) = Inr pv"
        by blast
      have "pv = None"
      proof (cases pv)
        case None
        then show ?thesis .
      next
        case (Some xs)
        with prev_values_Some [OF neg] pv nf show ?thesis by blast
      qed
      with dc d i pv show ?thesis by auto
    qed
  qed
  show ?thesis
    using vt eq fits blank vs ref gi unfolding vals wts by blast
qed

lemma composite_returns:
  assumes "vectors cfg \<noteq> []" "\<forall>v \<in> set (vectors cfg). \<not> falsy (ad (vec_id v))"
    and "\<forall>pvs. population_vectors cfg = Some pvs \<longrightarrow> (\<forall>v \<in> set pvs. \<not> falsy (ad (vec_id v)))"
    and "sum_list (get_weights cfg ad) \<noteq> 0"
    and "get_yoy_index (the (ad (vec_id (hd (vectors cfg))))) = Inr yi"
    and "period_mq (the (ad (vec_id (hd (vectors cfg))))) = Inr p"
  shows "\<exists>r. compute_composite_avg cfg ad = Inr (Some r)"
proof -
  have lv: "latest_values ad (vectors cfg) = Some (map (latest_of ad) (vectors cfg))"
    using assms(2) by (rule latest_values_present)
  have w: "(case population_vectors cfg of Some pvs \<Rightarrow> latest_values ad pvs
         | None \<Rightarrow> Some (replicate (length (map (latest_of ad) (vectors cfg))) 1))
         = Some (get_weights cfg ad)"
    using assms(3) by (auto simp: get_weights_def latest_values_present split: option.splits)
  have "hd (vectors cfg) \<in> set (vectors cfg)" using assms(1) by simp
  with assms(2) have "\<not> falsy (ad (vec_id (hd (vectors cfg))))" by blast
  then obtain ref where ref: "ad (vec_id (hd (vectors cfg))) = Some ref"
    by (cases "ad (vec_id (hd (vectors cfg)))") (simp_all add: falsy_def)
  have rs: "ref_series ad (hd (vectors cfg)) = Inr ref" using ref by (simp add: ref_series_def)
  have gi: "get_yoy_index ref = Inr yi" and pm: "period_mq ref = Inr p"
    using assms(5,6) ref by simp_all
  show ?thesis
  proof (cases yi)
    case None
    then show ?thesis
      using assms(1,4) lv w rs gi pm
      by (simp add: compute_composite_avg_def Let_def py_get_first)
  next
    case (Some i)
    then have "i < 0" using gi get_yoy_index_neg by blast
    from prev_values_ok [OF this] obtain pv where "prev_values ad i (vectors cfg) = Inr pv" by blast
    then show ?thesis
      using assms(1,4) lv w rs gi pm Some
      by (auto simp: compute_composite_avg_def Let_def py_get_first split: option.splits)
  qed
qed

text \<open>
  C6, amended. \<open>compute_composite_avg\<close> returns the weighted average of the latest values
  of its input series, the weights being the latest values of the population vectors, or
  equal weights (the plain mean) when none are configured. Its year-over-year detail is the
  percentage-point change versus the average, with the same weights, of the values found at
  one lookback index: the index that \<open>get_yoy_index\<close> gives for the first input series,
  applied to every input series counted from that series' own end. When the first series
  has no such index, or a series is shorter than it, the detail is empty and neutral. With
  all series present, a nonzero weight sum and dates of the first series that parse, a
  result is returned.
\<close>

theorem composite_avg_value:
  "(compute_composite_avg cfg ad = Inr (Some r) \<longrightarrow>
      value_text r = format_value cfg
        (weighted_sum (map (latest_of ad) (vectors cfg)) (get_weights cfg ad)
           / sum_list (get_weights cfg ad)) \<and>
      (population_vectors cfg = None \<longrightarrow>
         value_text r = format_value cfg
           (sum_list (map (latest_of ad) (vectors cfg)) / real (length (vectors cfg)))) \<and>
      (\<exists>v0 vs ref yi. vectors cfg = v0 # vs \<and> ad (vec_id v0) = Some ref \<and>
         get_yoy_index ref = Inr yi \<and>
         (\<forall>i. yi = Some i \<and> (\<forall>v \<in> set (vectors cfg). idx_fits (the (ad (vec_id v))) i) \<longrightarrow>
            (detail r, detail_color r) =
              format_detail
                (weighted_sum (map (latest_of ad) (vectors cfg)) (get_weights cfg ad)
                   / sum_list (get_weights cfg ad)
                 - weighted_sum (map (value_back ad i) (vectors cfg)) (get_weights cfg ad)
                   / sum_list (get_weights cfg ad))
                ''pp'' (direction cfg)) \<and>
         (yi = None \<or>
          (\<exists>i. yi = Some i \<and> (\<exists>v \<in> set (vectors cfg). \<not> idx_fits (the (ad (vec_id v))) i)) \<longrightarrow>
            detail r = [] \<and> detail_color r = ''neutral''))) \<and>
   (vectors cfg \<noteq> [] \<and> (\<forall>v \<in> set (vectors cfg). \<not> falsy (ad (vec_id v))) \<and>
    (\<forall>pvs. population_vectors cfg = Some pvs \<longrightarrow> (\<forall>v \<in> set pvs. \<not> falsy (ad (vec_id v)))) \<and>
    sum_list (get_weights cfg ad) \<noteq> 0 \<and>
    get_yoy_index (the (ad (vec_id (hd (vectors cfg))))) = Inr yi0 \<and>
    period_mq (the (ad (vec_id (hd (vectors cfg))))) = Inr p \<longrightarrow>
      (\<exists>r2. compute_composite_avg cfg ad = Inr (Some r2)))"
  using composite_value [of cfg ad r] composite_returns [of cfg ad yi0 p]
  by blast

lemma mixed_example:
  "compute_composite_avg mixed_cfg mixed_data =
     Inr (Some \<lparr>value_text = ''65.0'', detail = arrow_up @ '' 10.0 pp year over year'',
                detail_color = ''positive'', period = ''2024-01''\<rparr>)"
  by code_simp

lemma weighted_example:
  "compute_composite_avg weighted_cfg weighted_data =
     Inr (Some \<lparr>value_text = ''42.5'', detail = arrow_up @ '' 10.0 pp year over year'',
                detail_color = ''positive'', period = ''2024-01''\<rparr>)"
  by code_simp

lemma mixed_facts:
  "population_vectors mixed_cfg = None \<and>
   sum_list (map (latest_of mixed_data) (vectors mixed_cfg)) / real (length (vectors mixed_cfg)) = 65 \<and>
   weighted_sum (map (latest_of weighted_data) (vectors weighted_cfg))
       (get_weights weighted_cfg weighted_data)
     / sum_list (get_weights weighted_cfg weighted_data) = 85 / 2"
  by code_simp

text \<open>
  The mean of 110 and 20 is 65.0; with the weights 1 and 3 the average is 42.5. Both series
  are read at the index \<open>-13\<close> of the first.
\<close>

theorem composite_avg_value_witness:
  "compute_composite_avg mixed_cfg mixed_data =
     Inr (Some \<lparr>value_text = ''65.0'', detail = arrow_up @ '' 10.0 pp year over year'',
                detail_color = ''positive'', period = ''2024-01''\<rparr>) \<and>
   population_vectors mixed_cfg = None \<and>
   format_value mixed_cfg 65 = ''65.0'' \<and>
   compute_composite_avg weighted_cfg weighted_data =
     Inr (Some \<lparr>value_text = ''42.5'', detail = arrow_up @ '' 10.0 pp year over year'',
                detail_color = ''positive'', period = ''2024-01''\<rparr>) \<and>
   format_value weighted_cfg (85 / 2) = ''42.5''"
proof -
  note m = composite_avg_value [where cfg = mixed_cfg and ad = mixed_data
      and r = "\<lparr>value_text = ''65.0'', detail = arrow_up @ '' 10.0 pp year over year'',
                detail_color = ''positive'', period = ''2024-01''\<rparr>", THEN conjunct1, rule_format,
      OF mixed_example]
  note w = composite_avg_value [where cfg = weighted_cfg and ad = weighted_data
      and r = "\<lparr>value_text = ''42.5'', detail = arrow_up @ '' 10.0 pp year over year'',
                detail_color = ''positive'', period = ''2024-01''\<rparr>", THEN conjunct1, rule_format,
      OF weighted_example]
  have a: "format_value mixed_cfg 65 = ''65.0''"
    using m [THEN conjunct2, THEN conjunct1] mixed_facts by simp
  have b: "format_value weighted_cfg (85 / 2) = ''42.5''"
    using w [THEN conjunct1] mixed_facts by simp
  show ?thesis
    using mixed_example weighted_example mixed_facts a b by blast
qed

subsection \<open>Results whose lookback is missing\<close>

lemma prev_values_short:
  assumes "i < 0" "v \<in> set vs" "falsy (ad (vec_id v)) \<or> \<not> idx_fits (the (ad (vec_id v))) i"
  shows "prev_values ad i vs = Inr None"
proof -
  from prev_values_ok [OF assms(1)] obtain pv where pv: "prev_values ad i vs = Inr pv" by blast
  have "pv = None"
  proof (cases pv)
    case None
    then show ?thesis .
  next
    case (Some xs)
    with prev_values_Some [OF assms(1)] pv assms(2,3) show ?thesis by blast
  qed
  with pv show ?thesis by simp
qed

lemma sum_blank:
  assumes "compute_sum_yoy_pct cfg ad = Inr (Some r)"
  shows "\<exists>v0 vs ref yi. vectors cfg = v0 # vs \<and> ad (vec_id v0) = Some ref \<and>
     get_yoy_index ref = Inr yi \<and> (\<forall>v \<in> set (vectors cfg). \<not> falsy (ad (vec_id v))) \<and>
     (yi = None \<or> (\<exists>i. yi = Some i \<and> prev_values ad i (vectors cfg) = Inr None) \<longrightarrow>
        detail r = [] \<and> detail_color r = ''neutral'')"
proof -
  from assms obtain vals where lv: "latest_values ad (vectors cfg) = Some vals"
    by (auto simp: compute_sum_yoy_pct_def split: option.split_asm)
  have present: "\<forall>v \<in> set (vectors cfg). \<not> falsy (ad (vec_id v))"
    using lv latest_values_None_iff [of ad "vectors cfg"] by auto
  from assms lv have "\<exists>v0 vs ref yi. vectors cfg = v0 # vs \<and> ad (vec_id v0) = Some ref \<and>
     get_yoy_index ref = Inr yi \<and>
     (yi = None \<or> (\<exists>i. yi = Some i \<and> prev_values ad i (vectors cfg) = Inr None) \<longrightarrow>
        detail r = [] \<and> detail_color r = ''neutral'')"
    by (fastforce elim!: on_ok_InrE simp: compute_sum_yoy_pct_def Let_def ref_series_def
        split: option.split_asm if_split_asm dest!: py_get0_Cons)
  with present show ?thesis by blast
qed

lemma combined_blank:
  assumes "compute_combined_rate cfg ad = Inr (Some r)"
    and "nums = filter (\<lambda>v. role v = Some ''numerator'') (vectors cfg)"
    and "dens = filter (\<lambda>v. role v = Some ''denominator'') (vectors cfg)"
  shows "\<exists>v0 vs ref yi. nums = v0 # vs \<and> ad (vec_id v0) = Some ref \<and>
     get_yoy_index ref = Inr yi \<and> (\<forall>v \<in> set (nums @ dens). \<not> falsy (ad (vec_id v))) \<and>
     (yi = None \<or> (\<exists>i. yi = Some i \<and>
        (prev_values ad i nums = Inr None \<or> prev_values ad i dens = Inr None)) \<longrightarrow>
        detail r = [] \<and> detail_color r = ''neutral'')"
proof -
  from assms obtain ns ds where lv: "latest_values ad nums = Some ns" "latest_values ad dens = Some ds"
    by (auto simp: compute_combined_rate_def Let_def split: option.split_asm if_split_asm)
  have present: "\<forall>v \<in> set (nums @ dens). \<not> falsy (ad (vec_id v))"
    using lv latest_values_None_iff [of ad nums] latest_values_None_iff [of ad dens] by auto
  from assms(1) have "\<exists>v0 vs ref yi. nums = v0 # vs \<and> ad (vec_id v0) = Some ref \<and>
     get_yoy_index ref = Inr yi \<and>
     (yi = None \<or> (\<exists>i. yi = Some i \<and>
        (prev_values ad i nums = Inr None \<or> prev_values ad i dens = Inr None)) \<longrightarrow>
        detail r = [] \<and> detail_color r = ''neutral'')"
    unfolding assms(2,3)
    by (fastforce elim!: on_ok_InrE simp: compute_combined_rate_def Let_def ref_series_def
        split: option.split_asm if_split_asm dest!: py_get0_Cons)
  with present show ?thesis by blast
qed

lemma list_ex_missing:
  "list_ex (\<lambda>d. case d of None \<Rightarrow> True | Some s \<Rightarrow> \<not> idx_fits s i) (map (\<lambda>v. ad (vec_id v)) vs) \<Longrightarrow>
     \<exists>v \<in> set vs. falsy (ad (vec_id v)) \<or> \<not> idx_fits (the (ad (vec_id v))) i"
  by (auto simp: list_ex_iff falsy_def split: option.splits)

lemma rate_head:
  "compute_rate_yoy_pp cfg ad = Inr (Some r) \<Longrightarrow>
     \<exists>v vs data i. vectors cfg = v # vs \<and> ad (vec_id v) = Some data \<and>
       get_yoy_index data = Inr (Some i)"
  by (fastforce elim!: on_ok_InrE simp: compute_rate_yoy_pp_def Let_def
      split: option.split_asm if_split_asm dest!: py_get0_Cons)

lemma level_head:
  "compute_level_yoy_pct cfg ad = Inr (Some r) \<Longrightarrow>
     \<exists>v vs data i. vectors cfg = v # vs \<and> ad (vec_id v) = Some data \<and>
       get_yoy_index data = Inr (Some i)"
  by (fastforce elim!: on_ok_InrE simp: compute_level_yoy_pct_def Let_def
      split: option.split_asm if_split_asm dest!: py_get0_Cons)

lemma series_head:
  "name \<in> {''rate_yoy_pp'', ''level_yoy_pct'', ''count_yoy_pct''} \<Longrightarrow>
     lookback_series name cfg = map (\<lambda>v. Some (vec_id v)) (take 1 (vectors cfg))"
  by (simp add: lookback_series_def)

lemma series_share:
  "lookback_series ''share_pct'' cfg =
     (case find_labels ''total_exports'' ''us_exports'' (vectors cfg) (None, None) of
        Inr (a, b) \<Rightarrow> [a, b] | Inl e \<Rightarrow> [])"
  by (simp add: lookback_series_def)

lemma series_wage:
  "lookback_series ''wage_gap'' cfg =
     (case find_labels ''male_wage'' ''female_wage'' (vectors cfg) (None, None) of
        Inr (a, b) \<Rightarrow> [a, b] | Inl e \<Rightarrow> [])"
  by (simp add: lookback_series_def)

lemma series_composite:
  "lookback_series ''composite_avg'' cfg = map (\<lambda>v. Some (vec_id v)) (vectors cfg)"
  by (simp add: lookback_series_def)

lemma series_sum:
  "lookback_series ''sum_yoy_pct'' cfg = map (\<lambda>v. Some (vec_id v)) (vectors cfg)"
  by (simp add: lookback_series_def)

lemma series_combined:
  "lookback_series ''combined_rate'' cfg =
     map (\<lambda>v. Some (vec_id v))
       (filter (\<lambda>v. role v = Some ''numerator'') (vectors cfg) @
        filter (\<lambda>v. role v = Some ''denominator'') (vectors cfg))"
  by (simp add: lookback_series_def)

lemma series_qoq: "lookback_series ''level_qoq_pct'' cfg = []"
  by (simp add: lookback_series_def)

lemma missing_cases:
  assumes "lookback_missing name cfg ad"
    and "lookback_series name cfg = map (\<lambda>v. Some (vec_id v)) (v0 # vs)"
    and "ad (vec_id v0) = Some ref" "get_yoy_index ref = Inr yi"
  shows "yi = None \<or> (\<exists>i. yi = Some i \<and>
           (\<exists>v \<in> set vs. falsy (ad (vec_id v)) \<or> \<not> idx_fits (the (ad (vec_id v))) i))"
proof (cases yi)
  case None
  then show ?thesis by simp
next
  case (Some i)
  with assms have "list_ex (\<lambda>d. case d of None \<Rightarrow> True | Some s \<Rightarrow> \<not> idx_fits s i)
      (map (\<lambda>v. ad (vec_id v)) vs)"
    by (simp add: lookback_missing_def get_data_def comp_def)
  from list_ex_missing [OF this] Some show ?thesis by simp
qed

lemma head_not_missing:
  assumes "name \<in> {''rate_yoy_pp'', ''level_yoy_pct'', ''count_yoy_pct''}"
    and "vectors cfg = v # vs" "ad (vec_id v) = Some data" "get_yoy_index data = Inr (Some i)"
  shows "\<not> lookback_missing name cfg ad"
  using assms(2,3,4) by (simp add: lookback_missing_def series_head [OF assms(1)] get_data_def)

lemma pair_blank:
  assumes "pair_detail ratio now dir a b yi = Inr dc"
    and "yi = None \<or> (\<exists>i. yi = Some i \<and> \<not> idx_fits b i)"
  shows "dc = ([], ''neutral'')"
  using assms by (auto simp: pair_detail_def split: option.split_asm)

lemma pair_missing:
  assumes "lookback_missing name cfg ad" "lookback_series name cfg = [a, b]"
    and "get_data ad a = Some ta" "get_data ad b = Some ub" "get_yoy_index ta = Inr yi"
  shows "yi = None \<or> (\<exists>i. yi = Some i \<and> \<not> idx_fits ub i)"
  using assms by (cases yi) (simp_all add: lookback_missing_def)

lemma share_steps:
  "compute_share_pct cfg ad = Inr (Some r) \<Longrightarrow>
     \<exists>a b ta ub yi dc.
       find_labels ''total_exports'' ''us_exports'' (vectors cfg) (None, None) = Inr (a, b) \<and>
       get_data ad a = Some ta \<and> get_data ad b = Some ub \<and> get_yoy_index ta = Inr yi \<and>
       pair_detail (\<lambda>t u. (1 - u / t) * 100) ((1 - val (last ub) / val (last ta)) * 100)
         (direction cfg) ta ub yi = Inr dc \<and>
       detail r = fst dc \<and> detail_color r = snd dc"
  by (fastforce elim!: on_ok_InrE simp: compute_share_pct_def Let_def falsy_def
      split: if_split_asm prod.split_asm option.split_asm)

lemma wage_steps:
  "compute_wage_gap cfg ad = Inr (Some r) \<Longrightarrow>
     \<exists>a b ma fb yi dc.
       find_labels ''male_wage'' ''female_wage'' (vectors cfg) (None, None) = Inr (a, b) \<and>
       get_data ad a = Some ma \<and> get_data ad b = Some fb \<and> get_yoy_index ma = Inr yi \<and>
       pair_detail (\<lambda>m f. ((m - f) / m) * 100)
         (((val (last ma) - val (last fb)) / val (last ma)) * 100)
         (direction cfg) ma fb yi = Inr dc \<and>
       detail r = fst dc \<and> detail_color r = snd dc"
  by (fastforce elim!: on_ok_InrE simp: compute_wage_gap_def Let_def falsy_def
      split: if_split_asm prod.split_asm option.split_asm)

lemma share_missing:
  assumes "compute_share_pct cfg ad = Inr (Some r)" "lookback_missing ''share_pct'' cfg ad"
  shows "detail r = [] \<and> detail_color r = ''neutral''"
proof -
  from share_steps [OF assms(1)] obtain a b ta ub yi dc where
    f: "find_labels ''total_exports'' ''us_exports'' (vectors cfg) (None, None) = Inr (a, b)" and
    g: "get_data ad a = Some ta" "get_data ad b = Some ub" "get_yoy_index ta = Inr yi" and
    p: "pair_detail (\<lambda>t u. (1 - u / t) * 100) ((1 - val (last ub) / val (last ta)) * 100)
         (direction cfg) ta ub yi = Inr dc" and
    d: "detail r = fst dc" "detail_color r = snd dc"
    by blast
  have "lookback_series ''share_pct'' cfg = [a, b]" using f by (simp add: series_share)
  from pair_missing [OF assms(2) this g] have "yi = None \<or> (\<exists>i. yi = Some i \<and> \<not> idx_fits ub i)" .
  from pair_blank [OF p this] d show ?thesis by simp
qed

lemma wage_missing:
  assumes "compute_wage_gap cfg ad = Inr (Some r)" "lookback_missing ''wage_gap'' cfg ad"
  shows "detail r = [] \<and> detail_color r = ''neutral''"
proof -
  from wage_steps [OF assms(1)] obtain a b ma fb yi dc where
    f: "find_labels ''male_wage'' ''female_wage'' (vectors cfg) (None, None) = Inr (a, b)" and
    g: "get_data ad a = Some ma" "get_data ad b = Some fb" "get_yoy_index ma = Inr yi" and
    p: "pair_detail (\<lambda>m f. ((m - f) / m) * 100)
         (((val (last ma) - val (last fb)) / val (last ma)) * 100)
         (direction cfg) ma fb yi = Inr dc" and
    d: "detail r = fst dc" "detail_color r = snd dc"
    by blast
  have "lookback_series ''wage_gap'' cfg = [a, b]" using f by (simp add: series_wage)
  from pair_missing [OF assms(2) this g] have "yi = None \<or> (\<exists>i. yi = Some i \<and> \<not> idx_fits fb i)" .
  from pair_blank [OF p this] d show ?thesis by simp
qed

lemma composite_missing:
  assumes "compute_composite_avg cfg ad = Inr (Some r)" "lookback_missing ''composite_avg'' cfg ad"
  shows "detail r = [] \<and> detail_color r = ''neutral''"
proof -
  from assms(1) obtain vals where lv: "latest_values ad (vectors cfg) = Some vals"
    by (auto simp: compute_composite_avg_def split: option.split_asm)
  have present: "\<forall>v \<in> set (vectors cfg). \<not> falsy (ad (vec_id v))"
    using lv latest_values_None_iff [of ad "vectors cfg"] by auto
  from composite_value [OF assms(1)] obtain v0 vs ref yi where
    s: "vectors cfg = v0 # vs" "ad (vec_id v0) = Some ref" "get_yoy_index ref = Inr yi" and
    b: "yi = None \<or>
        (\<exists>i. yi = Some i \<and> (\<exists>v \<in> set (vectors cfg). \<not> idx_fits (the (ad (vec_id v))) i)) \<longrightarrow>
        detail r = [] \<and> detail_color r = ''neutral''"
    by blast
  have "lookback_series ''composite_avg'' cfg = map (\<lambda>v. Some (vec_id v)) (v0 # vs)"
    using s(1) by (simp add: series_composite)
  from missing_cases [OF assms(2) this s(2,3)] present b s(1) show ?thesis by auto
qed

lemma sum_missing:
  assumes "compute_sum_yoy_pct cfg ad = Inr (Some r)" "lookback_missing ''sum_yoy_pct'' cfg ad"
  shows "detail r = [] \<and> detail_color r = ''neutral''"
proof -
  from sum_blank [OF assms(1)] obtain v0 vs ref yi where
    s: "vectors cfg = v0 # vs" "ad (vec_id v0) = Some ref" "get_yoy_index ref = Inr yi" and
    b: "yi = None \<or> (\<exists>i. yi = Some i \<and> prev_values ad i (vectors cfg) = Inr None) \<longrightarrow>
        detail r = [] \<and> detail_color r = ''neutral''"
    by blast
  have "lookback_series ''sum_yoy_pct'' cfg = map (\<lambda>v. Some (vec_id v)) (v0 # vs)"
    using s(1) by (simp add: series_sum)
  from missing_cases [OF assms(2) this s(2,3)]
  have m: "yi = None \<or> (\<exists>i. yi = Some i \<and>
           (\<exists>v \<in> set vs. falsy (ad (vec_id v)) \<or> \<not> idx_fits (the (ad (vec_id v))) i))" .
  show ?thesis
  proof (cases yi)
    case None
    with b show ?thesis by simp
  next
    case (Some i)
    with m obtain v where v: "v \<in> set vs"
      "falsy (ad (vec_id v)) \<or> \<not> idx_fits (the (ad (vec_id v))) i" by auto
    have neg: "i < 0" using s(3) Some get_yoy_index_neg by blast
    have "v \<in> set (vectors cfg)" using v(1) s(1) by simp
    with neg have "prev_values ad i (vectors cfg) = Inr None"
      using v(2) by (rule prev_values_short [where ad = ad])
    with Some b show ?thesis by blast
  qed
qed

lemma combined_missing:
  assumes "compute_combined_rate cfg ad = Inr (Some r)" "lookback_missing ''combined_rate'' cfg ad"
  shows "detail r = [] \<and> detail_color r = ''neutral''"
proof -
  define nums where "nums = filter (\<lambda>v. role v = Some ''numerator'') (vectors cfg)"
  define dens where "dens = filter (\<lambda>v. role v = Some ''denominator'') (vectors cfg)"
  from combined_blank [OF assms(1) nums_def dens_def] obtain v0 vs ref yi where
    s: "nums = v0 # vs" "ad (vec_id v0) = Some ref" "get_yoy_index ref = Inr yi" and
    b: "yi = None \<or> (\<exists>i. yi = Some i \<and>
        (prev_values ad i nums = Inr None \<or> prev_values ad i dens = Inr None)) \<longrightarrow>
        detail r = [] \<and> detail_color r = ''neutral''"
    by blast
  have "lookback_series ''combined_rate'' cfg = map (\<lambda>v. Some (vec_id v)) (v0 # (vs @ dens))"
    using s(1) by (simp add: series_combined nums_def [symmetric] dens_def [symmetric])
  from missing_cases [OF assms(2) this s(2,3)]
  have m: "yi = None \<or> (\<exists>i. yi = Some i \<and>
           (\<exists>v \<in> set (vs @ dens). falsy (ad (vec_id v)) \<or> \<not> idx_fits (the (ad (vec_id v))) i))" .
  show ?thesis
  proof (cases yi)
    case None
    with b show ?thesis by simp
  next
    case (Some i)
    have neg: "i < 0" using s(3) Some get_yoy_index_neg by blast
    from m Some obtain v where v: "v \<in> set (vs @ dens)"
      "falsy (ad (vec_id v)) \<or> \<not> idx_fits (the (ad (vec_id v))) i" by auto
    then have "v \<in> set nums \<or> v \<in> set dens" using s(1) by auto
    then have "prev_values ad i nums = Inr None \<or> prev_values ad i dens = Inr None"
      using prev_values_short [where ad = ad and i = i and v = v and vs = nums, OF neg _ v(2)]
        prev_values_short [where ad = ad and i = i and v = v and vs = dens, OF neg _ v(2)]
      by blast
    with Some b show ?thesis by blast
  qed
qed

lemma strategies_missing:
  assumes "COMPUTE_FUNCTIONS name = Some f" and "f cfg ad = Inr (Some r)"
    and "lookback_missing name cfg ad"
  shows "detail r = [] \<and> detail_color r = ''neutral''"
proof -
  note n = COMPUTE_FUNCTIONS_named [OF assms(1)]
  have h: "name \<in> {''rate_yoy_pp'', ''level_yoy_pct'', ''count_yoy_pct''} \<Longrightarrow>
      f = compute_rate_yoy_pp \<or> f = compute_level_yoy_pct \<or> f = compute_count_yoy_pct \<Longrightarrow> False"
  proof -
    assume a: "name \<in> {''rate_yoy_pp'', ''level_yoy_pct'', ''count_yoy_pct''}"
    assume "f = compute_rate_yoy_pp \<or> f = compute_level_yoy_pct \<or> f = compute_count_yoy_pct"
    with assms(2) have "\<exists>v vs data i. vectors cfg = v # vs \<and> ad (vec_id v) = Some data \<and>
       get_yoy_index data = Inr (Some i)"
      using rate_head [of cfg ad r] level_head [of cfg ad r]
      by (auto simp: compute_count_yoy_pct_def)
    with head_not_missing [OF a] assms(3) show False by blast
  qed
  have q: "name \<noteq> ''level_qoq_pct''"
    using assms(3) by (auto simp: lookback_missing_def series_qoq)
  from n show ?thesis
  proof (elim disjE conjE)
    assume a: "name = ''rate_yoy_pp''" "f = compute_rate_yoy_pp"
    then have "name \<in> {''rate_yoy_pp'', ''level_yoy_pct'', ''count_yoy_pct''}" by simp
    from h [OF this] a(2) show ?thesis by simp
  next
    assume a: "name = ''level_yoy_pct''" "f = compute_level_yoy_pct"
    then have "name \<in> {''rate_yoy_pp'', ''level_yoy_pct'', ''count_yoy_pct''}" by simp
    from h [OF this] a(2) show ?thesis by simp
  next
    assume "name = ''level_qoq_pct''" "f = compute_level_qoq_pct"
    with q show ?thesis by simp
  next
    assume a: "name = ''count_yoy_pct''" "f = compute_count_yoy_pct"
    then have "name \<in> {''rate_yoy_pp'', ''level_yoy_pct'', ''count_yoy_pct''}" by simp
    from h [OF this] a(2) show ?thesis by simp
  next
    assume "name = ''share_pct''" "f = compute_share_pct"
    with assms(2,3) share_missing show ?thesis by simp
  next
    assume "name = ''wage_gap''" "f = compute_wage_gap"
    with assms(2,3) wage_missing show ?thesis by simp
  next
    assume "name = ''composite_avg''" "f = compute_composite_avg"
    with assms(2,3) composite_missing show ?thesis by simp
  next
    assume "name = ''sum_yoy_pct''" "f = compute_sum_yoy_pct"
    with assms(2,3) sum_missing show ?thesis by simp
  next
    assume "name = ''combined_rate''" "f = compute_combined_rate"
    with assms(2,3) combined_missing show ?thesis by simp
  qed
qed

lemma strategies_missing_names:
  assumes "COMPUTE_FUNCTIONS name = Some f" and "f cfg ad = Inr (Some r)"
    and "lookback_missing name cfg ad"
  shows "name \<in> {''share_pct'', ''wage_gap'', ''composite_avg'', ''sum_yoy_pct'', ''combined_rate''}"
proof -
  note n = COMPUTE_FUNCTIONS_named [OF assms(1)]
  have h: "name \<in> {''rate_yoy_pp'', ''level_yoy_pct'', ''count_yoy_pct''} \<Longrightarrow>
      f = compute_rate_yoy_pp \<or> f = compute_level_yoy_pct \<or> f = compute_count_yoy_pct \<Longrightarrow> False"
  proof -
    assume a: "name \<in> {''rate_yoy_pp'', ''level_yoy_pct'', ''count_yoy_pct''}"
    assume "f = compute_rate_yoy_pp \<or> f = compute_level_yoy_pct \<or> f = compute_count_yoy_pct"
    with assms(2) have "\<exists>v vs data i. vectors cfg = v # vs \<and> ad (vec_id v) = Some data \<and>
       get_yoy_index data = Inr (Some i)"
      using rate_head [of cfg ad r] level_head [of cfg ad r]
      by (auto simp: compute_count_yoy_pct_def)
    with head_not_missing [OF a] assms(3) show False by blast
  qed
  have q: "name \<noteq> ''level_qoq_pct''"
    using assms(3) by (auto simp: lookback_missing_def series_qoq)
  from n show ?thesis
  proof (elim disjE conjE)
    assume a: "name = ''rate_yoy_pp''" "f = compute_rate_yoy_pp"
    then have "name \<in> {''rate_yoy_pp'', ''level_yoy_pct'', ''count_yoy_pct''}" by simp
    from h [OF this] a(2) show ?thesis by simp
  next
    assume a: "name = ''level_yoy_pct''" "f = compute_level_yoy_pct"
    then have "name \<in> {''rate_yoy_pp'', ''level_yoy_pct'', ''count_yoy_pct''}" by simp
    from h [OF this] a(2) show ?thesis by simp
  next
    assume "name = ''level_qoq_pct''" "f = compute_level_qoq_pct"
    with q show ?thesis by simp
  next
    assume a: "name = ''count_yoy_pct''" "f = compute_count_yoy_pct"
    then have "name \<in> {''rate_yoy_pp'', ''level_yoy_pct'', ''count_yoy_pct''}" by simp
    from h [OF this] a(2) show ?thesis by simp
  next
    assume "name = ''share_pct''" "f = compute_share_pct"
    then show ?thesis by simp
  next
    assume "name = ''wage_gap''" "f = compute_wage_gap"
    then show ?thesis by simp
  next
    assume "name = ''composite_avg''" "f = compute_composite_avg"
    then show ?thesis by simp
  next
    assume "name = ''sum_yoy_pct''" "f = compute_sum_yoy_pct"
    then show ?thesis by simp
  next
    assume "name = ''combined_rate''" "f = compute_combined_rate"
    then show ?thesis by simp
  qed
qed

lemma sum_uneven_example:
  "compute_sum_yoy_pct mixed_cfg uneven_data =
     Inr (Some \<lparr>value_text = ''112.0'', detail = [], detail_color = ''neutral'', period = ''2024-01''\<rparr>)"
  by code_simp

lemma uneven_missing:
  "lookback_missing ''sum_yoy_pct'' mixed_cfg uneven_data \<and>
   no_lookback mixed_cfg uneven_data = False \<and>
   get_yoy_index monthly_13 = Inr (Some (- 13)) \<and> idx_fits (pts 1 2) (- 13) = False"
  by code_simp

lemma short_missing:
  "lookback_missing ''sum_yoy_pct'' (example_cfg ''positive'' [vec ''v1'', vec ''v2'']) short_data"
  by code_simp

text \<open>
  C8. In every result that a strategy produces, detail and colour go together: either the
  detail is empty and the colour neutral, or the detail is populated (it starts with the
  arrow of a change) and the colour is the sentiment that the direction gives to that same
  change. So a colour other than neutral never comes with an empty detail. Whenever the
  lookback value needed for the comparison does not exist, the result carries the empty
  detail with the neutral colour: that is when the reference series has no year-ago index
  (it is too short for its cadence), and also when some series that the strategy reads at
  that index is shorter than the index (\<open>lookback_missing\<close>); in particular when no series
  of the metric has a year-ago index (\<open>no_lookback\<close>). rate_yoy_pp, level_yoy_pct and
  count_yoy_pct produce no result without their lookback, and level_qoq_pct compares with
  the previous observation, which a result always has.
\<close>

theorem detail_and_colour_jointly:
  assumes "COMPUTE_FUNCTIONS name = Some f" and "f cfg ad = Inr (Some r)"
  shows "joint (direction cfg) (detail r) (detail_color r) \<and>
         (detail r = [] \<longrightarrow> detail_color r = ''neutral'') \<and>
         (detail_color r \<noteq> ''neutral'' \<longrightarrow> detail r \<noteq> []) \<and>
         (name \<noteq> ''level_qoq_pct'' \<and> no_lookback cfg ad \<longrightarrow>
            detail r = [] \<and> detail_color r = ''neutral'') \<and>
         (lookback_missing name cfg ad \<longrightarrow>
            detail r = [] \<and> detail_color r = ''neutral'' \<and>
            name \<in> {''share_pct'', ''wage_gap'', ''composite_avg'', ''sum_yoy_pct'',
                     ''combined_rate''})"
proof -
  have j: "joint (direction cfg) (detail r) (detail_color r)"
    by (rule strategies_joint [OF assms])
  then have e: "detail r = [] \<longrightarrow> detail_color r = ''neutral''"
    by (auto simp: joint_def)
  have m: "lookback_missing name cfg ad \<longrightarrow> detail r = [] \<and> detail_color r = ''neutral''"
    using strategies_missing [OF assms] by (intro impI)
  have n: "lookback_missing name cfg ad \<longrightarrow>
      name \<in> {''share_pct'', ''wage_gap'', ''composite_avg'', ''sum_yoy_pct'', ''combined_rate''}"
    using strategies_missing_names [OF assms] by (intro impI)
  have c: "detail_color r \<noteq> ''neutral'' \<longrightarrow> detail r \<noteq> []"
    using e by fast
  have k: "name \<noteq> ''level_qoq_pct'' \<and> no_lookback cfg ad \<longrightarrow>
      detail r = [] \<and> detail_color r = ''neutral''"
    using strategies_no_lookback [OF assms] by fast
  show ?thesis
  proof (intro conjI)
    show "joint (direction cfg) (detail r) (detail_color r)" by (rule j)
    show "detail r = [] \<longrightarrow> detail_color r = ''neutral''" by (rule e)
    show "detail_color r \<noteq> ''neutral'' \<longrightarrow> detail r \<noteq> []" by (rule c)
    show "name \<noteq> ''level_qoq_pct'' \<and> no_lookback cfg ad \<longrightarrow>
      detail r = [] \<and> detail_color r = ''neutral''" by (rule k)
    show "lookback_missing name cfg ad \<longrightarrow>
            detail r = [] \<and> detail_color r = ''neutral'' \<and>
            name \<in> {''share_pct'', ''wage_gap'', ''composite_avg'', ''sum_yoy_pct'',
                     ''combined_rate''}"
    proof
      assume a: "lookback_missing name cfg ad"
      from m a have d: "detail r = [] \<and> detail_color r = ''neutral''" by (rule mp)
      from n a have s: "name \<in> {''share_pct'', ''wage_gap'', ''composite_avg'',
          ''sum_yoy_pct'', ''combined_rate''}" by (rule mp)
      from conjunct1 [OF d] conjunct2 [OF d] s
      show "detail r = [] \<and> detail_color r = ''neutral'' \<and>
            name \<in> {''share_pct'', ''wage_gap'', ''composite_avg'', ''sum_yoy_pct'',
                     ''combined_rate''}" by (intro conjI)
    qed
  qed
qed

text \<open>
  Two series of two monthly observations summed, and a series of thirteen months summed with
  one of two observations: a result without comparison. One annual series of two
  observations: a populated detail with its colour.
\<close>

theorem detail_and_colour_jointly_witness:
  "COMPUTE_FUNCTIONS ''sum_yoy_pct'' = Some compute_sum_yoy_pct \<and>
   no_lookback (example_cfg ''positive'' [vec ''v1'', vec ''v2'']) short_data \<and>
   lookback_missing ''sum_yoy_pct'' (example_cfg ''positive'' [vec ''v1'', vec ''v2'']) short_data \<and>
   compute_sum_yoy_pct (example_cfg ''positive'' [vec ''v1'', vec ''v2'']) short_data =
     Inr (Some \<lparr>value_text = ''4.0'', detail = [], detail_color = ''neutral'', period = ''2024-01''\<rparr>) \<and>
   lookback_missing ''sum_yoy_pct'' mixed_cfg uneven_data \<and>
   no_lookback mixed_cfg uneven_data = False \<and>
   get_yoy_index monthly_13 = Inr (Some (- 13)) \<and> idx_fits (pts 1 2) (- 13) = False \<and>
   compute_sum_yoy_pct mixed_cfg uneven_data =
     Inr (Some \<lparr>value_text = ''112.0'', detail = [], detail_color = ''neutral'', period = ''2024-01''\<rparr>) \<and>
   COMPUTE_FUNCTIONS ''rate_yoy_pp'' = Some compute_rate_yoy_pp \<and>
   compute_rate_yoy_pp (example_cfg ''positive'' [vec ''v1'']) annual_data =
     Inr (Some \<lparr>value_text = ''2.0'', detail = arrow_up @ '' 1.0 pp year over year'',
                detail_color = ''positive'', period = ''2024''\<rparr>) \<and>
   joint ''positive'' (arrow_up @ '' 1.0 pp year over year'') ''positive''"
proof -
  have s: "COMPUTE_FUNCTIONS ''sum_yoy_pct'' = Some compute_sum_yoy_pct"
    by (simp add: COMPUTE_FUNCTIONS_def)
  have t: "COMPUTE_FUNCTIONS ''rate_yoy_pp'' = Some compute_rate_yoy_pp"
    by (simp add: COMPUTE_FUNCTIONS_def)
  show ?thesis
    using detail_and_colour_jointly [OF s sum_short_example]
      detail_and_colour_jointly [OF s sum_uneven_example]
      detail_and_colour_jointly [OF t rate_example]
      s t sum_short_example sum_uneven_example rate_example short_no_lookback
      uneven_missing short_missing
    by (simp add: example_cfg_def)
qed

subsection \<open>A year-ago value of zero, strategy by strategy\<close>

lemma combined_zero_lookback:
  assumes "compute_combined_rate cfg ad = Inr (Some r)"
    and "filter (\<lambda>v. role v = Some ''numerator'') (vectors cfg) = v # vs"
    and "ad (vec_id v) = Some ref" "get_yoy_index ref = Inr (Some k)"
    and "prev_values ad k (filter (\<lambda>v. role v = Some ''denominator'') (vectors cfg)) = Inr (Some prev)"
    and "sum_list prev = 0"
  shows "detail r = [] \<and> detail_color r = ''neutral''"
  using assms
  by (auto elim!: on_ok_InrE simp: compute_combined_rate_def Let_def py_get_Cons0 ref_series_def
      split: option.split_asm if_split_asm)

lemma format_detail_populated: "fst (format_detail x u dir) \<noteq> []"
  by (simp add: format_detail_def Let_def arrow_up_def arrow_down_def)

lemma rate_zero_lookback:
  assumes "vectors cfg = v # vs" "ad (vec_id v) = Some data" "get_yoy_index data = Inr (Some i)"
    "val (data ! (length data - nat (- i))) = 0" "compute_rate_yoy_pp cfg ad = Inr (Some r)"
  shows "(detail r, detail_color r) = format_detail (val (last data)) ''pp'' (direction cfg)"
  using assms
  by (auto elim!: on_ok_InrE simp: compute_rate_yoy_pp_def Let_def py_get_Cons0 get_yoy_index_get
      split: if_split_asm)

lemma composite_populated:
  assumes "compute_composite_avg cfg ad = Inr (Some r)" "vectors cfg = v # vs"
    "ad (vec_id v) = Some ref" "get_yoy_index ref = Inr (Some i)"
    "\<forall>u \<in> set (vectors cfg). idx_fits (the (ad (vec_id u))) i"
  shows "detail r \<noteq> []"
proof -
  from composite_value [OF assms(1)] obtain v0 vs0 ref0 yi where
    s: "vectors cfg = v0 # vs0" "ad (vec_id v0) = Some ref0" "get_yoy_index ref0 = Inr yi" and
    f: "\<forall>j. yi = Some j \<and> (\<forall>u \<in> set (vectors cfg). idx_fits (the (ad (vec_id u))) j) \<longrightarrow>
          (detail r, detail_color r) =
            format_detail
              (weighted_sum (map (latest_of ad) (vectors cfg)) (get_weights cfg ad)
                 / sum_list (get_weights cfg ad)
               - weighted_sum (map (value_back ad j) (vectors cfg)) (get_weights cfg ad)
                 / sum_list (get_weights cfg ad))
              ''pp'' (direction cfg)"
    by blast
  from s assms(2,3,4) have "yi = Some i" by simp
  with f assms(5) have "(detail r, detail_color r) =
      format_detail
        (weighted_sum (map (latest_of ad) (vectors cfg)) (get_weights cfg ad)
           / sum_list (get_weights cfg ad)
         - weighted_sum (map (value_back ad i) (vectors cfg)) (get_weights cfg ad)
           / sum_list (get_weights cfg ad))
        ''pp'' (direction cfg)"
    by blast
  then have "detail r = fst (format_detail
        (weighted_sum (map (latest_of ad) (vectors cfg)) (get_weights cfg ad)
           / sum_list (get_weights cfg ad)
         - weighted_sum (map (value_back ad i) (vectors cfg)) (get_weights cfg ad)
           / sum_list (get_weights cfg ad))
        ''pp'' (direction cfg))"
    by (metis fst_conv)
  then show ?thesis by (simp add: format_detail_populated)
qed

lemma combined_zero_den:
  "compute_combined_rate one_each_cfg zero_den_data =
     Inr (Some \<lparr>value_text = ''50.0'', detail = [], detail_color = ''neutral'', period = ''2024-Q1''\<rparr>)"
  by code_simp

lemma zero_den_steps:
  "filter (\<lambda>v. role v = Some ''numerator'') (vectors one_each_cfg) = [role_vec ''n1'' ''numerator''] \<and>
   zero_den_data (vec_id (role_vec ''n1'' ''numerator'')) =
     Some [\<lparr>date = ''2023-01-01'', val = 3\<rparr>, \<lparr>date = ''2024-02-05'', val = 4\<rparr>] \<and>
   get_yoy_index [\<lparr>date = ''2023-01-01'', val = 3\<rparr>, \<lparr>date = ''2024-02-05'', val = 4\<rparr>]
     = Inr (Some (- 2)) \<and>
   prev_values zero_den_data (- 2)
     (filter (\<lambda>v. role v = Some ''denominator'') (vectors one_each_cfg)) = Inr (Some [0])"
  by code_simp

text \<open>
  C1, amended. When the year-ago observation exists and is zero, what is reported depends on
  the strategy. \<open>compute_level_yoy_pct\<close> (and count_yoy_pct, which is the same function)
  gives the detail "0.0% year over year" with an up arrow, coloured by the direction as a
  zero change is; \<open>read_official_data\<close> (monthly) returns a year-over-year growth of 0;
  share_pct and wage_gap take the year-ago ratio as 0, so their change is the current ratio;
  \<open>compute_rate_yoy_pp\<close> subtracts the zero, so its change is the latest value;
  \<open>compute_composite_avg\<close> publishes a comparison whatever the year-ago values are. Two
  strategies leave the comparison out (empty detail, neutral colour):
  \<open>compute_sum_yoy_pct\<close> when the year-ago sum is zero, and \<open>compute_combined_rate\<close> when the
  year-ago sum of the denominators is zero. Month-over-month and quarter-over-quarter growth
  is 0 on a zero previous value.
\<close>

theorem zero_lookback_reported_as_zero:
  "(vectors cfg = v # vs \<and> ad (vec_id v) = Some data \<and> get_yoy_index data = Inr (Some i) \<and>
    val (data ! (length data - nat (- i))) = 0 \<and> compute_level_yoy_pct cfg ad = Inr (Some r) \<longrightarrow>
      detail r = arrow_up @ '' 0.0% year over year'' \<and>
      detail_color r = (if direction cfg = ''positive'' \<or> direction cfg = ''negative''
                        then ''positive'' else ''neutral'')) \<and>
   (frequency ind \<noteq> ''Quarterly'' \<and> frequency ind \<noteq> ''Daily'' \<and> unit ind \<noteq> ''%'' \<and>
    unit ind \<noteq> ''C$ millions'' \<and> lookback pf rows 13 = Inr (Some 0) \<and>
    official_body pf ind rows = Inr off \<longrightarrow>
      (if contains ''C$'' (unit ind) \<or> contains ''dollars'' (lower (unit ind))
       then extra_key off = Yoy_growth (Some 0) \<and> secondary off = Some 0
       else value_o off = Some 0)) \<and>
   (get_yoy_index a = Inr (Some j) \<and> idx_fits b j \<and> val (a ! (length a - nat (- j))) = 0 \<longrightarrow>
      pair_detail ratio now dir a b (Some j) = Inr (format_detail now ''pp'' dir)) \<and>
   (compute_sum_yoy_pct cfg2 ad2 = Inr (Some r2) \<and> vectors cfg2 = v2 # vs2 \<and>
    ad2 (vec_id v2) = Some ref \<and> get_yoy_index ref = Inr (Some k) \<and>
    prev_values ad2 k (vectors cfg2) = Inr (Some prev) \<and> sum_list prev = 0 \<longrightarrow>
      detail r2 = [] \<and> detail_color r2 = ''neutral'') \<and>
   (compute_combined_rate cfg_c ad_c = Inr (Some r_c) \<and>
    filter (\<lambda>x. role x = Some ''numerator'') (vectors cfg_c) = v_c # vs_c \<and>
    ad_c (vec_id v_c) = Some ref_c \<and> get_yoy_index ref_c = Inr (Some k_c) \<and>
    prev_values ad_c k_c (filter (\<lambda>x. role x = Some ''denominator'') (vectors cfg_c))
      = Inr (Some prev_c) \<and> sum_list prev_c = 0 \<longrightarrow>
      detail r_c = [] \<and> detail_color r_c = ''neutral'') \<and>
   (vectors cfg_r = v_r # vs_r \<and> ad_r (vec_id v_r) = Some data_r \<and>
    get_yoy_index data_r = Inr (Some i_r) \<and> val (data_r ! (length data_r - nat (- i_r))) = 0 \<and>
    compute_rate_yoy_pp cfg_r ad_r = Inr (Some r_r) \<longrightarrow>
      (detail r_r, detail_color r_r) = format_detail (val (last data_r)) ''pp'' (direction cfg_r)) \<and>
   (compute_composite_avg cfg_m ad_m = Inr (Some r_m) \<and> vectors cfg_m = v_m # vs_m \<and>
    ad_m (vec_id v_m) = Some ref_m \<and> get_yoy_index ref_m = Inr (Some i_m) \<and>
    (\<forall>u \<in> set (vectors cfg_m). idx_fits (the (ad_m (vec_id u))) i_m) \<longrightarrow>
      detail r_m \<noteq> []) \<and>
   growth latest 0 = 0"
proof -
  have 1: "vectors cfg = v # vs \<and> ad (vec_id v) = Some data \<and> get_yoy_index data = Inr (Some i) \<and>
    val (data ! (length data - nat (- i))) = 0 \<and> compute_level_yoy_pct cfg ad = Inr (Some r) \<longrightarrow>
      detail r = arrow_up @ '' 0.0% year over year'' \<and>
      detail_color r = (if direction cfg = ''positive'' \<or> direction cfg = ''negative''
                        then ''positive'' else ''neutral'')"
    using level_zero_lookback [of cfg v vs ad data i r] by blast
  have 2: "frequency ind \<noteq> ''Quarterly'' \<and> frequency ind \<noteq> ''Daily'' \<and> unit ind \<noteq> ''%'' \<and>
    unit ind \<noteq> ''C$ millions'' \<and> lookback pf rows 13 = Inr (Some 0) \<and>
    official_body pf ind rows = Inr off \<longrightarrow>
      (if contains ''C$'' (unit ind) \<or> contains ''dollars'' (lower (unit ind))
       then extra_key off = Yoy_growth (Some 0) \<and> secondary off = Some 0
       else value_o off = Some 0)"
    using official_zero_lookback [of ind pf rows off] by blast
  have 3: "get_yoy_index a = Inr (Some j) \<and> idx_fits b j \<and> val (a ! (length a - nat (- j))) = 0 \<longrightarrow>
      pair_detail ratio now dir a b (Some j) = Inr (format_detail now ''pp'' dir)"
    using pair_zero_lookback [of a j b ratio now dir] by blast
  have 4: "compute_sum_yoy_pct cfg2 ad2 = Inr (Some r2) \<and> vectors cfg2 = v2 # vs2 \<and>
    ad2 (vec_id v2) = Some ref \<and> get_yoy_index ref = Inr (Some k) \<and>
    prev_values ad2 k (vectors cfg2) = Inr (Some prev) \<and> sum_list prev = 0 \<longrightarrow>
      detail r2 = [] \<and> detail_color r2 = ''neutral''"
    using sum_zero_lookback [of cfg2 ad2 r2 v2 vs2 ref k prev] by blast
  have 5: "compute_combined_rate cfg_c ad_c = Inr (Some r_c) \<and>
    filter (\<lambda>x. role x = Some ''numerator'') (vectors cfg_c) = v_c # vs_c \<and>
    ad_c (vec_id v_c) = Some ref_c \<and> get_yoy_index ref_c = Inr (Some k_c) \<and>
    prev_values ad_c k_c (filter (\<lambda>x. role x = Some ''denominator'') (vectors cfg_c))
      = Inr (Some prev_c) \<and> sum_list prev_c = 0 \<longrightarrow>
      detail r_c = [] \<and> detail_color r_c = ''neutral''"
    using combined_zero_lookback [of cfg_c ad_c r_c v_c vs_c ref_c k_c prev_c] by blast
  have 6: "vectors cfg_r = v_r # vs_r \<and> ad_r (vec_id v_r) = Some data_r \<and>
    get_yoy_index data_r = Inr (Some i_r) \<and> val (data_r ! (length data_r - nat (- i_r))) = 0 \<and>
    compute_rate_yoy_pp cfg_r ad_r = Inr (Some r_r) \<longrightarrow>
      (detail r_r, detail_color r_r) = format_detail (val (last data_r)) ''pp'' (direction cfg_r)"
    using rate_zero_lookback [of cfg_r v_r vs_r ad_r data_r i_r r_r] by blast
  have 7: "compute_composite_avg cfg_m ad_m = Inr (Some r_m) \<and> vectors cfg_m = v_m # vs_m \<and>
    ad_m (vec_id v_m) = Some ref_m \<and> get_yoy_index ref_m = Inr (Some i_m) \<and>
    (\<forall>u \<in> set (vectors cfg_m). idx_fits (the (ad_m (vec_id u))) i_m) \<longrightarrow>
      detail r_m \<noteq> []"
    using composite_populated [of cfg_m ad_m r_m v_m vs_m ref_m i_m] by blast
  from 1 2 3 4 5 6 7 growth_zero [of latest] show ?thesis by (intro conjI)
qed

text \<open>
  The annual series and the monthly file whose year-ago value is zero, and the combined rate
  whose year-ago denominator is zero.
\<close>

theorem zero_lookback_reported_as_zero_witness:
  "vectors (example_cfg ''positive'' [vec ''v1'']) = vec ''v1'' # [] \<and>
   zero_base_data (vec_id (vec ''v1'')) =
     Some [\<lparr>date = ''2023-01-01'', val = 0\<rparr>, \<lparr>date = ''2024-02-05'', val = 2\<rparr>] \<and>
   get_yoy_index [\<lparr>date = ''2023-01-01'', val = 0\<rparr>, \<lparr>date = ''2024-02-05'', val = 2\<rparr>]
     = Inr (Some (- 2)) \<and>
   detail (the (projr (compute_level_yoy_pct (example_cfg ''positive'' [vec ''v1'']) zero_base_data)))
     = arrow_up @ '' 0.0% year over year'' \<and>
   lookback digits_float zero_base_file 13 = Inr (Some 0) \<and>
   value_o (projr (official_body digits_float monthly_growth zero_base_file)) = Some 0 \<and>
   prev_values zero_den_data (- 2)
     (filter (\<lambda>v. role v = Some ''denominator'') (vectors one_each_cfg)) = Inr (Some [0]) \<and>
   detail (the (projr (compute_combined_rate one_each_cfg zero_den_data))) = [] \<and>
   detail_color (the (projr (compute_combined_rate one_each_cfg zero_den_data))) = ''neutral''"
  using zero_lookback_reported_as_zero [where cfg = "example_cfg ''positive'' [vec ''v1'']"
      and v = "vec ''v1''" and vs = "[]" and ad = zero_base_data
      and data = "[\<lparr>date = ''2023-01-01'', val = 0\<rparr>, \<lparr>date = ''2024-02-05'', val = 2\<rparr>]"
      and i = "- 2"
      and r = "\<lparr>value_text = ''2.0'', detail = arrow_up @ '' 0.0% year over year'',
                detail_color = ''positive'', period = ''2024''\<rparr>"
      and ind = monthly_growth and pf = digits_float and rows = zero_base_file
      and off = "\<lparr>date_o = Some ''2024-01-01'', period_o = Some ''2024-01'', value_o = Some 0,
          secondary = Some 0, absolute = 5, extra_key = NoExtra\<rparr>"
      and cfg_c = one_each_cfg and ad_c = zero_den_data
      and r_c = "\<lparr>value_text = ''50.0'', detail = [], detail_color = ''neutral'',
                 period = ''2024-Q1''\<rparr>"
      and v_c = "role_vec ''n1'' ''numerator''" and vs_c = "[]"
      and ref_c = "[\<lparr>date = ''2023-01-01'', val = 3\<rparr>, \<lparr>date = ''2024-02-05'', val = 4\<rparr>]"
      and k_c = "- 2" and prev_c = "[0]"]
    level_zero_base official_zero_base lookback_zero_base zero_base_index
    combined_zero_den zero_den_steps
  by (simp add: example_cfg_def zero_base_data_def vec_def)

end
